theory Spec2Isabelle
  imports Main
begin

section \<open>create-pull-request.py: the script and what it talks to\<close>

text \<open>
  The script is one straight run: it reads the process environment and the trigger
  payload, drives a git working tree and the hosting API, and exits. Everything it
  does to the outside is recorded here as an \<open>event\<close>, in the order the source does it;
  everything the outside answers comes from a \<open>world\<close>, which may answer a call
  differently depending on the events that came before it.
\<close>

subsection \<open>Values\<close>

text \<open>The trigger payload and the data of an API error, as \<open>json.load\<close> returns them.
  A number is kept as an integer; no decision of the script reads one.\<close>

datatype json =
    JNull
  | JBool bool
  | JNum int
  | JStr string
  | JArr "json list"
  | JObj "(string \<times> json) list"

text \<open>The exceptions the script can meet. \<open>GithubException\<close> carries the HTTP status and
  the response data; \<open>OtherError\<close> names any other class (a failed git command, a
  network error, an unreadable file).\<close>

datatype exc =
    KeyError
  | TypeError
  | IndexError
  | ValueError
  | GithubException int json
  | OtherError string

record pull =
  number :: int
  pull_id :: int

record project =
  proj_name :: string
  proj_id :: int

record column =
  col_name :: string
  col_id :: int

text \<open>Requests to the hosting API, with the arguments the source passes.\<close>

datatype api_call =
    GetRepo string string
  | CreatePull string string string string
  | GetPulls string string string
  | AsIssue int
  | EditLabels int "string list"
  | EditAssignees int "string list"
  | GetMilestone int
  | EditMilestone int int
  | CreateReviewRequest int "string list"
  | CreateTeamReviewRequest int "string list"
  | GetProjects string
  | GetColumns int
  | CreateCard int int string

text \<open>A git command is its name, its keyword arguments and its positional arguments,
  as handed to the git wrapper: \<open>git.checkout("HEAD", b=branch)\<close> is
  \<open>Git ''checkout'' [(''b'', branch)] [''HEAD'']\<close>.\<close>

datatype event =
    Print string
  | System string
  | LoadEvent string
  | OpenRepo
  | UpdateEnvironment "(string \<times> string) list"
  | Git string "(string \<times> string) list" "string list"
  | OriginRefs
  | IsDirty
  | UntrackedFiles
  | Api api_call

type_synonym environ = "string \<rightharpoonup> string"

text \<open>The outside. An answer \<open>Inl e\<close> is the call raising \<open>e\<close>. The last five fields are
  Python's own text operations, taken as they are:
  \<open>py_str\<close> is \<open>str()\<close> of a payload value that is not a string, \<open>py_int\<close> is \<open>int()\<close>
  of a string (\<open>None\<close> for \<open>ValueError\<close>), \<open>json_dumps\<close> and \<open>exc_str\<close> are
  \<open>json.dumps\<close> and \<open>str()\<close> of an exception, and \<open>py_strip\<close> is \<open>str.strip()\<close>, which
  removes leading and trailing white space in Python's sense (the Unicode spaces
  included).\<close>

record world =
  load_event :: "string \<Rightarrow> exc + json"
  open_repo :: "exc option"
  git_exec :: "event list \<Rightarrow> string \<Rightarrow> (string \<times> string) list \<Rightarrow> string list \<Rightarrow> exc + string"
  origin_refs :: "event list \<Rightarrow> exc + string list"
  is_dirty :: "event list \<Rightarrow> exc + bool"
  untracked_files :: "event list \<Rightarrow> exc + string list"
  clock :: int
  random_draw :: "nat \<Rightarrow> nat"
  api_action :: "event list \<Rightarrow> api_call \<Rightarrow> exc option"
  api_pull :: "event list \<Rightarrow> api_call \<Rightarrow> exc + pull"
  api_pulls :: "event list \<Rightarrow> api_call \<Rightarrow> exc + pull list"
  api_milestone :: "event list \<Rightarrow> api_call \<Rightarrow> exc + int"
  api_projects :: "event list \<Rightarrow> api_call \<Rightarrow> exc + project list"
  api_columns :: "event list \<Rightarrow> api_call \<Rightarrow> exc + column list"
  py_str :: "json \<Rightarrow> string"
  py_int :: "string \<Rightarrow> int option"
  json_dumps :: "json \<Rightarrow> string"
  exc_str :: "exc \<Rightarrow> string"
  py_strip :: "string \<Rightarrow> string"

subsection \<open>Running: events so far, and how a step ends\<close>

text \<open>A step either returns a value, or stops the run: \<open>sys.exit(n)\<close> or an exception
  on its way up. An exception nobody catches ends the process with status 1.\<close>

datatype stop = Exit int | Raise exc

type_synonym 'a prog = "event list \<Rightarrow> (stop + 'a) \<times> event list"

definition ret :: "'a \<Rightarrow> 'a prog" where
  "ret x = (\<lambda>h. (Inr x, h))"

definition bnd :: "'a prog \<Rightarrow> ('a \<Rightarrow> 'b prog) \<Rightarrow> 'b prog" where
  "bnd m f = (\<lambda>h. case m h of (Inl s, h') \<Rightarrow> (Inl s, h') | (Inr x, h') \<Rightarrow> f x h')"

definition seq :: "'a prog \<Rightarrow> 'b prog \<Rightarrow> 'b prog" where
  "seq m n = bnd m (\<lambda>_. n)"

fun block :: "unit prog list \<Rightarrow> unit prog" where
  "block [] = ret ()"
| "block (m # ms) = seq m (block ms)"

definition emit :: "event \<Rightarrow> unit prog" where
  "emit e = (\<lambda>h. (Inr (), h @ [e]))"

definition print :: "string \<Rightarrow> unit prog" where
  "print s = emit (Print s)"

definition sys_exit :: "int \<Rightarrow> 'a prog" where
  "sys_exit n = (\<lambda>h. (Inl (Exit n), h))"

definition raise :: "exc \<Rightarrow> 'a prog" where
  "raise x = (\<lambda>h. (Inl (Raise x), h))"

definition lift :: "exc + 'a \<Rightarrow> 'a prog" where
  "lift r = (case r of Inl x \<Rightarrow> raise x | Inr v \<Rightarrow> ret v)"

text \<open>An external call: the event is recorded, and the world answers from the events
  before it.\<close>

definition call :: "event \<Rightarrow> (event list \<Rightarrow> exc + 'a) \<Rightarrow> 'a prog" where
  "call e answer = (\<lambda>h. (case answer h of Inl x \<Rightarrow> Inl (Raise x) | Inr v \<Rightarrow> Inr v, h @ [e]))"

definition done_or :: "exc option \<Rightarrow> exc + unit" where
  "done_or r = (case r of None \<Rightarrow> Inr () | Some x \<Rightarrow> Inl x)"

text \<open>\<open>except BaseException\<close> catches whatever stops the body, \<open>SystemExit\<close> included;
  \<open>except GithubException as e\<close> catches that class only and hands over its status and
  data.\<close>

definition try_base :: "unit prog \<Rightarrow> unit prog \<Rightarrow> unit prog" where
  "try_base m handler = (\<lambda>h. case m h of (Inl s, h') \<Rightarrow> handler h' | (Inr x, h') \<Rightarrow> (Inr x, h'))"

definition try_github :: "'a prog \<Rightarrow> (int \<Rightarrow> json \<Rightarrow> 'a prog) \<Rightarrow> 'a prog" where
  "try_github m handler =
     (\<lambda>h. case m h of
        (Inl (Raise (GithubException status data)), h') \<Rightarrow> handler status data h'
      | r \<Rightarrow> r)"

definition exit_code :: "(stop + unit) \<Rightarrow> int" where
  "exit_code r = (case r of Inr _ \<Rightarrow> 0 | Inl (Exit n) \<Rightarrow> n | Inl (Raise _) \<Rightarrow> 1)"

subsection \<open>Python's string and dictionary operations\<close>

definition quoted :: "string \<Rightarrow> string" where
  "quoted s = CHR 0x27 # s @ [CHR 0x27]"

fun startswith :: "string \<Rightarrow> string \<Rightarrow> bool" where
  "startswith s [] = True"
| "startswith [] (p # ps) = False"
| "startswith (c # cs) (p # ps) = (c = p \<and> startswith cs ps)"

fun digits_of :: "nat \<Rightarrow> string" where
  "digits_of n =
     (if n < 10 then [''0123456789'' ! n]
      else digits_of (n div 10) @ [''0123456789'' ! (n mod 10)])"

text \<open>\<open>"%d" % n\<close> and \<open>"%s" % n\<close> for an integer.\<close>

definition str_int :: "int \<Rightarrow> string" where
  "str_int n = (if n < 0 then CHR ''-'' # digits_of (nat (- n)) else digits_of (nat n))"

text \<open>\<open>s.split(sep)\<close> for a one-character separator: never an empty list.\<close>

fun split_on :: "char \<Rightarrow> string \<Rightarrow> string list" where
  "split_on sep [] = [[]]"
| "split_on sep (c # cs) =
     (if c = sep then [] # split_on sep cs
      else (case split_on sep cs of [] \<Rightarrow> [[c]] | w # ws \<Rightarrow> (c # w) # ws))"

definition getenv :: "environ \<Rightarrow> string \<Rightarrow> string \<Rightarrow> string" where
  "getenv env k d = (case env k of None \<Rightarrow> d | Some v \<Rightarrow> v)"

definition environ_get :: "environ \<Rightarrow> string \<Rightarrow> string prog" where
  "environ_get env k = (case env k of None \<Rightarrow> raise KeyError | Some v \<Rightarrow> ret v)"

text \<open>\<open>v[k]\<close> with a string key: only a dictionary has one.\<close>

fun getitem :: "json \<Rightarrow> string \<Rightarrow> exc + json" where
  "getitem (JObj kvs) k = (case map_of kvs k of None \<Rightarrow> Inl KeyError | Some v \<Rightarrow> Inr v)"
| "getitem v k = Inl TypeError"

text \<open>\<open>v[0]\<close>: the first item of a list, the first character of a string; a dictionary
  loaded from JSON has no integer key.\<close>

fun getfirst :: "json \<Rightarrow> exc + json" where
  "getfirst (JArr []) = Inl IndexError"
| "getfirst (JArr (x # xs)) = Inr x"
| "getfirst (JStr []) = Inl IndexError"
| "getfirst (JStr (c # cs)) = Inr (JStr [c])"
| "getfirst (JObj kvs) = Inl KeyError"
| "getfirst v = Inl TypeError"

fun getpath :: "json \<Rightarrow> string list \<Rightarrow> exc + json" where
  "getpath v [] = Inr v"
| "getpath v (k # ks) = (case getitem v k of Inl e \<Rightarrow> Inl e | Inr v' \<Rightarrow> getpath v' ks)"

definition to_text :: "world \<Rightarrow> json \<Rightarrow> string" where
  "to_text w v = (case v of JStr s \<Rightarrow> s | _ \<Rightarrow> py_str w v)"

text \<open>\<open>"{a[b][c]}".format(**data)\<close> with the path \<open>[a, b, c]\<close>.\<close>

definition format_field :: "world \<Rightarrow> json \<Rightarrow> string list \<Rightarrow> exc + string" where
  "format_field w data path =
     (case getpath data path of Inl e \<Rightarrow> Inl e | Inr v \<Rightarrow> Inr (to_text w v))"

subsection \<open>The functions of the script\<close>

text \<open>The author and committer the script settles on: module-level variables in the
  source, read by \<open>push_changes\<close>.\<close>

record identity =
  author_name :: string
  author_email :: string
  committer_name :: string
  committer_email :: string

definition get_github_event :: "world \<Rightarrow> environ \<Rightarrow> string \<Rightarrow> json prog" where
  "get_github_event w env github_event_path =
     bnd (call (LoadEvent github_event_path) (\<lambda>h. load_event w github_event_path))
       (\<lambda>github_event.
          if (case env ''DEBUG_EVENT'' of None \<Rightarrow> False | Some v \<Rightarrow> v \<noteq> []) then
            bnd (environ_get env ''GITHUB_EVENT_NAME'') (\<lambda>name.
            seq (print name)
            (seq (print (json_dumps w github_event))
            (ret github_event)))
          else ret github_event)"

definition get_head_short_sha1 :: "world \<Rightarrow> string prog" where
  "get_head_short_sha1 w =
     call (Git ''rev-parse'' [] [''--short'', ''HEAD''])
       (\<lambda>h. git_exec w h ''rev-parse'' [] [''--short'', ''HEAD''])"

definition random_chars :: string where
  "random_chars = ''abcdefghijklmnopqrstuvwxyz0123456789''"

definition get_random_suffix :: "world \<Rightarrow> string" where
  "get_random_suffix w =
     map (\<lambda>i. random_chars ! (random_draw w i mod length random_chars)) [0..<7]"

definition remote_branch_exists :: "world \<Rightarrow> string \<Rightarrow> bool prog" where
  "remote_branch_exists w branch =
     bnd (call OriginRefs (origin_refs w))
       (\<lambda>refs. ret (list_ex (\<lambda>name. name = ''origin/'' @ branch) refs))"

definition get_author_default :: "world \<Rightarrow> environ \<Rightarrow> string \<Rightarrow> json \<Rightarrow> (string \<times> string) prog" where
  "get_author_default w env event_name event_data =
     (if event_name = ''push'' then
        bnd (lift (format_field w event_data [''head_commit'', ''author'', ''email''])) (\<lambda>email.
        bnd (lift (format_field w event_data [''head_commit'', ''author'', ''name''])) (\<lambda>name.
        ret (email, name)))
      else
        bnd (environ_get env ''GITHUB_ACTOR'') (\<lambda>actor.
        bnd (environ_get env ''GITHUB_ACTOR'') (\<lambda>name.
        ret (actor @ ''@users.noreply.github.com'', name))))"

definition get_repo_url :: "string \<Rightarrow> string \<Rightarrow> string" where
  "get_repo_url token github_repository =
     ''https://x-access-token:'' @ token @ ''@github.com/'' @ github_repository"

definition git :: "world \<Rightarrow> string \<Rightarrow> (string \<times> string) list \<Rightarrow> string list \<Rightarrow> string prog" where
  "git w cmd kwargs args = call (Git cmd kwargs args) (\<lambda>h. git_exec w h cmd kwargs args)"

definition git_do :: "world \<Rightarrow> string \<Rightarrow> (string \<times> string) list \<Rightarrow> string list \<Rightarrow> unit prog" where
  "git_do w cmd kwargs args = seq (git w cmd kwargs args) (ret ())"

definition checkout_branch :: "world \<Rightarrow> bool \<Rightarrow> string \<Rightarrow> unit prog" where
  "checkout_branch w remote_exists branch =
     (if remote_exists then
        block
          [print (''Checking out branch '' @ quoted branch),
           git_do w ''stash'' [] [''--include-untracked''],
           git_do w ''checkout'' [] [branch],
           try_base (git_do w ''stash'' [] [''pop''])
             (block [git_do w ''checkout'' [] [''--theirs'', ''.''],
                     git_do w ''reset'' [] []])]
      else
        block
          [print (''Creating new branch '' @ quoted branch),
           git_do w ''checkout'' [(''b'', branch)] [''HEAD'']])"

definition push_changes ::
  "world \<Rightarrow> identity \<Rightarrow> string \<Rightarrow> string \<Rightarrow> string \<Rightarrow> string \<Rightarrow> string prog" where
  "push_changes w ident token github_repository branch commit_message =
     seq (git_do w ''add'' [] [''-A''])
     (seq (print (''author_name='' @ author_name ident @ '', author_email='' @ author_email ident
                  @ '', committer_name='' @ committer_name ident
                  @ '', committer_email='' @ committer_email ident))
     (seq (git_do w ''commit''
             [(''message'', commit_message),
              (''author_name'', author_name ident),
              (''author_email'', author_email ident),
              (''committer_name'', committer_name ident),
              (''committer_email'', committer_email ident)] [])
     (git w ''push'' []
        [''-f'', get_repo_url token github_repository, ''HEAD:refs/heads/'' @ branch])))"

definition cs_string_to_list :: "world \<Rightarrow> string \<Rightarrow> string list" where
  "cs_string_to_list w str =
     filter (\<lambda>i. i \<noteq> []) (map (py_strip w) (split_on CHR '','' str))"

definition api_do :: "world \<Rightarrow> api_call \<Rightarrow> unit prog" where
  "api_do w c = call (Api c) (\<lambda>h. done_or (api_action w h c))"

text \<open>The two \<open>for ... break\<close> loops take the first project and the first column of
  the given name; each listing is one request here.\<close>

definition create_project_card :: "world \<Rightarrow> string \<Rightarrow> string \<Rightarrow> pull \<Rightarrow> unit prog" where
  "create_project_card w pname cname pull_request =
     bnd (call (Api (GetProjects ''all'')) (\<lambda>h. api_projects w h (GetProjects ''all''))) (\<lambda>projects.
       case find (\<lambda>project_item. proj_name project_item = pname) projects of
         None \<Rightarrow> print ''::warning::Project not found. Unable to create project card.''
       | Some project \<Rightarrow>
           bnd (call (Api (GetColumns (proj_id project)))
                  (\<lambda>h. api_columns w h (GetColumns (proj_id project)))) (\<lambda>columns.
             case find (\<lambda>column_item. col_name column_item = cname) columns of
               None \<Rightarrow> print ''::warning::Project column not found. Unable to create project card.''
             | Some column \<Rightarrow>
                 block
                   [api_do w (CreateCard (col_id column) (pull_id pull_request) ''PullRequest''),
                    print (''Added pull request #'' @ str_int (number pull_request)
                           @ '' to project '' @ quoted (proj_name project)
                           @ '' under column '' @ quoted (col_name column))]))"

text \<open>Lines 144 to 167 of \<open>process_event\<close>: the pull request is created, or on status
  422 the first open one for the same base and head is taken.\<close>

definition create_or_update_pull ::
  "world \<Rightarrow> string \<Rightarrow> string \<Rightarrow> string \<Rightarrow> string \<Rightarrow> string \<Rightarrow> pull prog" where
  "create_or_update_pull w github_repository title body base branch =
     try_github
       (bnd (call (Api (CreatePull title body base branch))
               (\<lambda>h. api_pull w h (CreatePull title body base branch))) (\<lambda>pull_request.
        seq (print (''Created pull request #'' @ str_int (number pull_request)
                    @ '' ('' @ branch @ '' => '' @ base @ '')''))
        (ret pull_request)))
       (\<lambda>status data.
          if status = 422 then
            (case split_on CHR ''/'' github_repository of
               [] \<Rightarrow> raise IndexError
             | owner # _ \<Rightarrow>
                 (let head_branch = owner @ '':'' @ branch in
                  bnd (call (Api (GetPulls ''open'' base head_branch))
                         (\<lambda>h. api_pulls w h (GetPulls ''open'' base head_branch))) (\<lambda>pulls.
                    case pulls of
                      [] \<Rightarrow> raise IndexError
                    | pull_request # _ \<Rightarrow>
                        seq (print (''Updated pull request #'' @ str_int (number pull_request)
                                    @ '' ('' @ branch @ '' => '' @ base @ '')''))
                        (ret pull_request))))
          else
            seq (print (exc_str w (GithubException status data))) (sys_exit 1))"

text \<open>Lines 169 to 218 of \<open>process_event\<close>: the output variables, then labels, assignees,
  milestone, reviewers, team reviewers and the project card, each only when configured.\<close>

definition set_outputs_and_metadata ::
  "world \<Rightarrow> pull \<Rightarrow> string option \<Rightarrow> string option \<Rightarrow> string option \<Rightarrow> string option
   \<Rightarrow> string option \<Rightarrow> string option \<Rightarrow> string option \<Rightarrow> unit prog" where
  "set_outputs_and_metadata w pull_request pull_request_labels pull_request_assignees
     pull_request_milestone pull_request_reviewers pull_request_team_reviewers
     project_name project_column_name =
     block
       [emit (System (''echo ::set-env name=PULL_REQUEST_NUMBER::''
                      @ str_int (number pull_request))),
        emit (System (''echo ::set-output name=pr_number::'' @ str_int (number pull_request))),
        (case pull_request_labels of
           None \<Rightarrow> ret ()
         | Some labels \<Rightarrow>
             block
               [print (''Applying labels '' @ quoted labels),
                api_do w (AsIssue (number pull_request)),
                api_do w (EditLabels (number pull_request) (cs_string_to_list w labels))]),
        (case pull_request_assignees of
           None \<Rightarrow> ret ()
         | Some assignees \<Rightarrow>
             block
               [print (''Applying assignees '' @ quoted assignees),
                api_do w (AsIssue (number pull_request)),
                api_do w (EditAssignees (number pull_request) (cs_string_to_list w assignees))]),
        (case pull_request_milestone of
           None \<Rightarrow> ret ()
         | Some ms \<Rightarrow>
             seq (print (''Applying milestone '' @ quoted ms))
             (case py_int w ms of
                None \<Rightarrow> raise ValueError
              | Some n \<Rightarrow>
                  bnd (call (Api (GetMilestone n)) (\<lambda>h. api_milestone w h (GetMilestone n)))
                    (\<lambda>milestone.
                       block
                         [api_do w (AsIssue (number pull_request)),
                          api_do w (EditMilestone (number pull_request) milestone)]))),
        (case pull_request_reviewers of
           None \<Rightarrow> ret ()
         | Some reviewers \<Rightarrow>
             seq (print (''Requesting reviewers '' @ quoted reviewers))
             (try_github
                (api_do w (CreateReviewRequest (number pull_request)
                             (cs_string_to_list w reviewers)))
                (\<lambda>status data.
                   if status = 422 then
                     bnd (lift (getitem data ''message'')) (\<lambda>message.
                       print (''Requesting reviewers failed - '' @ to_text w message))
                   else ret ()))),
        (case pull_request_team_reviewers of
           None \<Rightarrow> ret ()
         | Some team_reviewers \<Rightarrow>
             block
               [print (''Requesting team reviewers '' @ quoted team_reviewers),
                api_do w (CreateTeamReviewRequest (number pull_request)
                            (cs_string_to_list w team_reviewers))]),
        (case project_name of
           None \<Rightarrow> ret ()
         | Some pname \<Rightarrow>
             (case project_column_name of
                None \<Rightarrow> ret ()
              | Some cname \<Rightarrow>
                  try_github (create_project_card w pname cname pull_request)
                    (\<lambda>status data.
                       if status = 422 then
                         bnd (lift (getitem data ''errors'')) (\<lambda>errors.
                         bnd (lift (getfirst errors)) (\<lambda>error.
                         bnd (lift (getitem error ''message'')) (\<lambda>message.
                           print (''Create project card failed - '' @ to_text w message))))
                       else ret ())))]"

definition process_event ::
  "world \<Rightarrow> environ \<Rightarrow> identity \<Rightarrow> string \<Rightarrow> string \<Rightarrow> string \<Rightarrow> string \<Rightarrow> unit prog" where
  "process_event w env ident github_token github_repository branch base =
     (let commit_message =
            getenv env ''COMMIT_MESSAGE'' ''Auto-committed changes by create-pull-request action'';
          title = getenv env ''PULL_REQUEST_TITLE'' ''Auto-generated by create-pull-request action'';
          body = getenv env ''PULL_REQUEST_BODY''
                   (''Auto-generated pull request by ''
                    @ ''[create-pull-request](https://github.com/peter-evans/create-pull-request) GitHub Action'');
          pull_request_labels = env ''PULL_REQUEST_LABELS'';
          pull_request_assignees = env ''PULL_REQUEST_ASSIGNEES'';
          pull_request_milestone = env ''PULL_REQUEST_MILESTONE'';
          pull_request_reviewers = env ''PULL_REQUEST_REVIEWERS'';
          pull_request_team_reviewers = env ''PULL_REQUEST_TEAM_REVIEWERS'';
          project_name = env ''PROJECT_NAME'';
          project_column_name = env ''PROJECT_COLUMN_NAME''
      in
      seq (print (''Pushing changes to '' @ quoted (''origin/'' @ branch)))
      (bnd (push_changes w ident github_token github_repository branch commit_message) (\<lambda>push_result.
      seq (print push_result)
      (seq (api_do w (GetRepo github_token github_repository))
      (bnd (create_or_update_pull w github_repository title body base branch) (\<lambda>pull_request.
      set_outputs_and_metadata w pull_request pull_request_labels pull_request_assignees
        pull_request_milestone pull_request_reviewers pull_request_team_reviewers
        project_name project_column_name))))))"

subsection \<open>The script body\<close>

record config =
  github_token :: string
  github_repository :: string
  github_ref :: string
  event_name :: string
  event_data :: json
  ident :: identity
  branch_prefix :: string
  base_override :: "string option"

text \<open>Lines 221 to 253: the environment, the trigger payload, the identity, the
  repository of the working directory, the branch prefix and the base override.\<close>

definition startup :: "world \<Rightarrow> environ \<Rightarrow> config prog" where
  "startup w env =
     bnd (environ_get env ''GITHUB_TOKEN'') (\<lambda>github_token.
     bnd (environ_get env ''GITHUB_REPOSITORY'') (\<lambda>github_repository.
     bnd (environ_get env ''GITHUB_REF'') (\<lambda>github_ref.
     bnd (environ_get env ''GITHUB_EVENT_NAME'') (\<lambda>event_name.
     bnd (environ_get env ''GITHUB_EVENT_PATH'') (\<lambda>github_event_path.
     bnd (get_github_event w env github_event_path) (\<lambda>event_data.
     bnd (get_author_default w env event_name event_data) (\<lambda>(author_email0, author_name0).
       (let author_name1 = getenv env ''COMMIT_AUTHOR_NAME'' author_name0;
            author_email1 = getenv env ''COMMIT_AUTHOR_EMAIL'' author_email0;
            committer_name1 = getenv env ''COMMITTER_NAME'' author_name1;
            committer_email1 = getenv env ''COMMITTER_EMAIL'' author_email1
        in
        seq (call OpenRepo (\<lambda>h. done_or (open_repo w)))
        (seq (print (''Configuring git author as '' @ quoted (author_name1 @ '' <'' @ author_email1 @ ''>'')))
        (seq (print (''Configuring git committer as ''
                     @ quoted (committer_name1 @ '' <'' @ committer_email1 @ ''>'')))
        (seq (emit (UpdateEnvironment
                      [(''GIT_AUTHOR_NAME'', author_name1),
                       (''GIT_AUTHOR_EMAIL'', author_email1),
                       (''GIT_COMMITTER_NAME'', committer_name1),
                       (''GIT_COMMITTER_EMAIL'', committer_email1)]))
        (ret \<lparr>github_token = github_token,
              github_repository = github_repository,
              github_ref = github_ref,
              event_name = event_name,
              event_data = event_data,
              ident = \<lparr>author_name = author_name1, author_email = author_email1,
                       committer_name = committer_name1, committer_email = committer_email1\<rparr>,
              branch_prefix = getenv env ''PULL_REQUEST_BRANCH'' ''create-pull-request/patch'',
              base_override = env ''PULL_REQUEST_BASE''\<rparr>))))))))))))"

definition fork_warning :: string where
  "fork_warning =
     ''::warning::Pull request was raised from a fork of the repository. ''
     @ ''Limitations on forked repositories have been imposed by GitHub Actions. ''
     @ ''Unable to continue. Exiting.''"

text \<open>Lines 255 to 285: the base branch.\<close>

definition set_base :: "world \<Rightarrow> environ \<Rightarrow> config \<Rightarrow> string prog" where
  "set_base w env cfg =
     (case base_override cfg of
        Some base \<Rightarrow>
          seq (print (''Overriding the base with branch '' @ quoted base))
          (seq (checkout_branch w True base)
          (ret base))
      | None \<Rightarrow>
          if startswith (github_ref cfg) ''refs/pull/'' then
            bnd (lift (format_field w (event_data cfg)
                         [''pull_request'', ''head'', ''repo'', ''full_name''])) (\<lambda>head_repo.
            seq (if head_repo \<noteq> github_repository cfg
                 then seq (print fork_warning) (sys_exit 0)
                 else ret ())
            (bnd (environ_get env ''GITHUB_HEAD_REF'') (\<lambda>base.
            seq (print (''Removing the merge commit by switching to the pull request head branch ''
                        @ quoted base))
            (seq (checkout_branch w True base)
            (ret base)))))
          else if startswith (github_ref cfg) ''refs/heads/'' then
            (let base = drop 11 (github_ref cfg) in
             seq (print (''Currently checked out base assumed to be branch '' @ quoted base))
             (ret base))
          else
            seq (print (''::warning::Currently checked out ref '' @ quoted (github_ref cfg)
                        @ '' is not a valid base for a pull request. ''
                        @ ''Unable to continue. Exiting.''))
            (sys_exit 0))"

text \<open>Lines 287 to 292: a base that this action created is skipped.\<close>

definition skip_own_branch :: "config \<Rightarrow> string \<Rightarrow> unit prog" where
  "skip_own_branch cfg base =
     (if startswith base (branch_prefix cfg)
      then seq (print (''Branch '' @ quoted base @ '' was created by this action. Skipping.''))
           (sys_exit 0)
      else ret ())"

text \<open>Lines 294 to 313: the suffix strategy and the head branch.\<close>

definition set_branch :: "world \<Rightarrow> environ \<Rightarrow> config \<Rightarrow> (string \<times> string) prog" where
  "set_branch w env cfg =
     (let branch_suffix = getenv env ''BRANCH_SUFFIX'' ''short-commit-hash'' in
      bnd (if branch_suffix = ''short-commit-hash'' then
             bnd (get_head_short_sha1 w) (\<lambda>sha. ret (branch_prefix cfg @ ''-'' @ sha))
           else if branch_suffix = ''timestamp'' then
             ret (branch_prefix cfg @ ''-'' @ str_int (clock w))
           else if branch_suffix = ''random'' then
             ret (branch_prefix cfg @ ''-'' @ get_random_suffix w)
           else if branch_suffix = ''none'' then
             ret (branch_prefix cfg)
           else
             seq (print (''Branch suffix '' @ quoted branch_suffix @ '' is not a valid value.''))
             (sys_exit 1)) (\<lambda>branch.
      seq (print (''Pull request branch to create/update set to '' @ quoted branch))
      (ret (branch_suffix, branch))))"

text \<open>Lines 315 to 335: does the head branch exist on the remote, and what then.\<close>

definition check_remote :: "world \<Rightarrow> string \<Rightarrow> string \<Rightarrow> bool prog" where
  "check_remote w branch_suffix branch =
     bnd (remote_branch_exists w branch) (\<lambda>remote_exists.
     seq (if remote_exists then
            seq (print (''Pull request branch '' @ quoted branch
                        @ '' already exists as remote branch '' @ quoted (''origin/'' @ branch)))
            (if branch_suffix = ''short-commit-hash'' then
               seq (print (''Pull request branch '' @ quoted branch
                           @ '' already exists for this commit. Skipping.''))
               (sys_exit 0)
             else if branch_suffix \<in> set [''timestamp'', ''random''] then
               seq (print (''Pull request branch '' @ quoted branch
                           @ '' collided with a branch of the same name. Please re-run.''))
               (sys_exit 1)
             else ret ())
          else ret ())
     (ret remote_exists))"

text \<open>Lines 340 to 356: local changes are published, none ends the run.\<close>

definition publish_changes :: "world \<Rightarrow> environ \<Rightarrow> config \<Rightarrow> bool \<Rightarrow> string \<Rightarrow> string \<Rightarrow> unit prog" where
  "publish_changes w env cfg remote_exists branch base =
     seq (if remote_exists then
            print (''Checking for local working copy changes indicating a ''
                   @ ''diff with existing pull request branch '' @ quoted (''origin/'' @ branch))
          else
            print (''Checking for local working copy changes indicating a ''
                   @ ''diff with base '' @ quoted (''origin/'' @ base)))
     (bnd (bnd (call IsDirty (is_dirty w)) (\<lambda>dirty.
             if dirty then ret True
             else bnd (call UntrackedFiles (untracked_files w)) (\<lambda>files. ret (length files > 0))))
        (\<lambda>changed.
           if changed then
             seq (print ''Modified or untracked files detected.'')
             (process_event w env (ident cfg) (github_token cfg) (github_repository cfg) branch base)
           else print ''No modified or untracked files detected. Skipping.''))"

text \<open>Lines 221 to 313: up to the head branch name.\<close>

definition resolve :: "world \<Rightarrow> environ \<Rightarrow> (config \<times> string \<times> string \<times> string) prog" where
  "resolve w env =
     bnd (startup w env) (\<lambda>cfg.
     bnd (set_base w env cfg) (\<lambda>base.
     seq (skip_own_branch cfg base)
     (bnd (set_branch w env cfg) (\<lambda>(branch_suffix, branch).
     ret (cfg, base, branch_suffix, branch)))))"

text \<open>Lines 221 to 338: up to the head branch being checked out.\<close>

definition prepare :: "world \<Rightarrow> environ \<Rightarrow> (config \<times> string \<times> string \<times> bool) prog" where
  "prepare w env =
     bnd (resolve w env) (\<lambda>(cfg, base, branch_suffix, branch).
     bnd (check_remote w branch_suffix branch) (\<lambda>remote_exists.
     seq (checkout_branch w remote_exists branch)
     (ret (cfg, base, branch, remote_exists))))"

definition main :: "world \<Rightarrow> environ \<Rightarrow> unit prog" where
  "main w env =
     bnd (prepare w env) (\<lambda>(cfg, base, branch, remote_exists).
     publish_changes w env cfg remote_exists branch base)"

text \<open>One invocation: the script starts with nothing done.\<close>

definition run :: "world \<Rightarrow> environ \<Rightarrow> (stop + unit) \<times> event list" where
  "run w env = main w env []"

definition status_of :: "world \<Rightarrow> environ \<Rightarrow> int" where
  "status_of w env = exit_code (fst (run w env))"

definition trace_of :: "world \<Rightarrow> environ \<Rightarrow> event list" where
  "trace_of w env = snd (run w env)"

section \<open>What the claims speak about\<close>

subsection \<open>Kinds of events\<close>

text \<open>What the script does without git and without the network: its output, reading
  the payload file, opening the repository object and setting the git environment.\<close>

definition local_event :: "event \<Rightarrow> bool" where
  "local_event e =
     (case e of Print s \<Rightarrow> True | LoadEvent p \<Rightarrow> True | OpenRepo \<Rightarrow> True
      | UpdateEnvironment kv \<Rightarrow> True | _ \<Rightarrow> False)"

definition is_git :: "event \<Rightarrow> bool" where
  "is_git e = (case e of Git c kw args \<Rightarrow> True | _ \<Rightarrow> False)"

definition is_api :: "event \<Rightarrow> bool" where
  "is_api e = (case e of Api c \<Rightarrow> True | _ \<Rightarrow> False)"

definition is_push :: "event \<Rightarrow> bool" where
  "is_push e = (case e of Git c kw args \<Rightarrow> c = ''push'' | _ \<Rightarrow> False)"

definition is_create_pull :: "event \<Rightarrow> bool" where
  "is_create_pull e = (case e of Api (CreatePull t b base head) \<Rightarrow> True | _ \<Rightarrow> False)"

definition is_get_pulls :: "event \<Rightarrow> bool" where
  "is_get_pulls e = (case e of Api (GetPulls st base head) \<Rightarrow> True | _ \<Rightarrow> False)"

text \<open>The publish step: staging, committing, pushing, any API request, and the output
  variables.\<close>

definition is_publish :: "event \<Rightarrow> bool" where
  "is_publish e =
     (case e of Git c kw args \<Rightarrow> c \<in> set [''add'', ''commit'', ''push'']
      | Api c \<Rightarrow> True | System s \<Rightarrow> True | _ \<Rightarrow> False)"

text \<open>The git commands of \<open>checkout_branch\<close> on a branch that exists on the remote.\<close>

definition stash_checkout :: "string \<Rightarrow> event \<Rightarrow> bool" where
  "stash_checkout b e =
     (e \<in> set [Git ''stash'' [] [''--include-untracked''],
                Git ''checkout'' [] [b],
                Git ''stash'' [] [''pop''],
                Git ''checkout'' [] [''--theirs'', ''.''],
                Git ''reset'' [] []])"

text \<open>A checkout that lands on the branch \<open>b\<close>, existing or new.\<close>

definition checks_out :: "string \<Rightarrow> event \<Rightarrow> bool" where
  "checks_out b e =
     (case e of Git c kw args \<Rightarrow> c = ''checkout'' \<and> (args = [b] \<or> map_of kw ''b'' = Some b)
      | _ \<Rightarrow> False)"

text \<open>Whenever a step returns, its value satisfies \<open>Q\<close>.\<close>

definition returns :: "'a prog \<Rightarrow> ('a \<Rightarrow> bool) \<Rightarrow> bool" where
  "returns m Q = (\<forall>h x h'. m h = (Inr x, h') \<longrightarrow> Q x)"

text \<open>What can happen before the publish step: the start, the checkouts, the
  short hash and the listing of the remote branches.\<close>

definition is_prepare :: "event \<Rightarrow> bool" where
  "is_prepare e =
     (case e of Print s \<Rightarrow> True | LoadEvent p \<Rightarrow> True | OpenRepo \<Rightarrow> True
      | UpdateEnvironment kv \<Rightarrow> True | OriginRefs \<Rightarrow> True
      | Git c kw args \<Rightarrow> c \<in> set [''stash'', ''checkout'', ''reset'', ''rev-parse'']
      | _ \<Rightarrow> False)"

text \<open>A step adds at most \<open>k\<close> events of the kind \<open>P\<close>, whatever came before and
  however it ends.\<close>

definition adds :: "(event \<Rightarrow> bool) \<Rightarrow> nat \<Rightarrow> 'a prog \<Rightarrow> bool" where
  "adds P k m = (\<forall>h. \<exists>es. snd (m h) = h @ es \<and> length (filter P es) \<le> k)"

subsection \<open>Concrete runs\<close>

text \<open>A world in which every call succeeds and nothing is there yet: no remote
  branch, a clean tree, HEAD at \<open>a1b2c3d\<close>, pull request 7 on creation. Its texts hold
  no white space but the space, which is what its \<open>py_strip\<close> removes.\<close>

definition quiet_world :: world where
  "quiet_world =
     \<lparr>load_event = (\<lambda>p. Inr (JObj [])),
      open_repo = None,
      git_exec = (\<lambda>h c kw args. Inr (if c = ''rev-parse'' then ''a1b2c3d'' else [])),
      origin_refs = (\<lambda>h. Inr []),
      is_dirty = (\<lambda>h. Inr False),
      untracked_files = (\<lambda>h. Inr []),
      clock = 1600000000,
      random_draw = (\<lambda>i. i),
      api_action = (\<lambda>h c. None),
      api_pull = (\<lambda>h c. Inr \<lparr>number = 7, pull_id = 700\<rparr>),
      api_pulls = (\<lambda>h c. Inr []),
      api_milestone = (\<lambda>h c. Inr 1),
      api_projects = (\<lambda>h c. Inr []),
      api_columns = (\<lambda>h c. Inr []),
      py_str = (\<lambda>v. ''?''),
      py_int = (\<lambda>s. None),
      json_dumps = (\<lambda>v. ''{}''),
      exc_str = (\<lambda>x. ''error''),
      py_strip = (\<lambda>s. rev (dropWhile (\<lambda>c. c = CHR '' '') (rev (dropWhile (\<lambda>c. c = CHR '' '') s))))\<rparr>"

text \<open>A pull request raised from the fork \<open>fork/repo\<close> against \<open>octo/repo\<close>.\<close>

definition fork_payload :: json where
  "fork_payload =
     JObj [(''pull_request'',
            JObj [(''head'', JObj [(''repo'', JObj [(''full_name'', JStr ''fork/repo'')])])])]"

definition fork_world :: world where
  "fork_world = quiet_world\<lparr>load_event := (\<lambda>p. Inr fork_payload)\<rparr>"

definition fork_env :: environ where
  "fork_env =
     map_of [(''GITHUB_TOKEN'', ''t''),
             (''GITHUB_REPOSITORY'', ''octo/repo''),
             (''GITHUB_REF'', ''refs/pull/5/merge''),
             (''GITHUB_EVENT_NAME'', ''pull_request''),
             (''GITHUB_EVENT_PATH'', ''/event.json''),
             (''GITHUB_ACTOR'', ''alice''),
             (''GITHUB_HEAD_REF'', ''feature'')]"

definition alice :: identity where
  "alice = \<lparr>author_name = ''alice'', author_email = ''alice@users.noreply.github.com'',
            committer_name = ''alice'', committer_email = ''alice@users.noreply.github.com''\<rparr>"

definition fork_cfg :: config where
  "fork_cfg =
     \<lparr>github_token = ''t'', github_repository = ''octo/repo'',
      github_ref = ''refs/pull/5/merge'', event_name = ''pull_request'',
      event_data = fork_payload, ident = alice,
      branch_prefix = ''create-pull-request/patch'', base_override = None\<rparr>"

definition alice_started :: "event list" where
  "alice_started =
     [LoadEvent ''/event.json'', OpenRepo,
      Print (''Configuring git author as '' @ quoted ''alice <alice@users.noreply.github.com>''),
      Print (''Configuring git committer as '' @ quoted ''alice <alice@users.noreply.github.com>''),
      UpdateEnvironment
        [(''GIT_AUTHOR_NAME'', ''alice''),
         (''GIT_AUTHOR_EMAIL'', ''alice@users.noreply.github.com''),
         (''GIT_COMMITTER_NAME'', ''alice''),
         (''GIT_COMMITTER_EMAIL'', ''alice@users.noreply.github.com'')]]"

text \<open>The line printed before the working tree is inspected (lines 341 to 350).\<close>

definition checking_message :: "bool \<Rightarrow> string \<Rightarrow> string \<Rightarrow> string" where
  "checking_message remote_exists branch base =
     (if remote_exists then
        ''Checking for local working copy changes indicating a ''
        @ ''diff with existing pull request branch '' @ quoted (''origin/'' @ branch)
      else
        ''Checking for local working copy changes indicating a ''
        @ ''diff with base '' @ quoted (''origin/'' @ base))"

text \<open>A scheduled run on \<open>refs/heads/master\<close> by \<open>alice\<close>, and how far it gets in the quiet
  world.\<close>

definition master_env :: environ where
  "master_env =
     map_of [(''GITHUB_TOKEN'', ''t''),
             (''GITHUB_REPOSITORY'', ''octo/repo''),
             (''GITHUB_REF'', ''refs/heads/master''),
             (''GITHUB_EVENT_NAME'', ''schedule''),
             (''GITHUB_EVENT_PATH'', ''/event.json''),
             (''GITHUB_ACTOR'', ''alice'')]"

definition master_cfg :: config where
  "master_cfg =
     \<lparr>github_token = ''t'', github_repository = ''octo/repo'',
      github_ref = ''refs/heads/master'', event_name = ''schedule'',
      event_data = JObj [], ident = alice,
      branch_prefix = ''create-pull-request/patch'', base_override = None\<rparr>"

definition master_based :: "event list" where
  "master_based =
     alice_started
     @ [Print (''Currently checked out base assumed to be branch '' @ quoted ''master'')]"

definition master_resolved :: "event list" where
  "master_resolved =
     master_based
     @ [Git ''rev-parse'' [] [''--short'', ''HEAD''],
        Print (''Pull request branch to create/update set to ''
               @ quoted ''create-pull-request/patch-a1b2c3d'')]"

definition master_prepared :: "event list" where
  "master_prepared =
     master_resolved
     @ [OriginRefs,
        Print (''Creating new branch '' @ quoted ''create-pull-request/patch-a1b2c3d''),
        Git ''checkout'' [(''b'', ''create-pull-request/patch-a1b2c3d'')] [''HEAD'']]"

text \<open>The same scheduled run with \<open>PULL_REQUEST_BASE\<close> naming a branch this action made.\<close>

definition own_env :: environ where
  "own_env = master_env(''PULL_REQUEST_BASE'' \<mapsto> ''create-pull-request/patch-old'')"

definition own_cfg :: config where
  "own_cfg = master_cfg\<lparr>base_override := Some ''create-pull-request/patch-old''\<rparr>"

definition own_based :: "event list" where
  "own_based =
     alice_started
     @ [Print (''Overriding the base with branch '' @ quoted ''create-pull-request/patch-old''),
        Print (''Checking out branch '' @ quoted ''create-pull-request/patch-old''),
        Git ''stash'' [] [''--include-untracked''],
        Git ''checkout'' [] [''create-pull-request/patch-old''],
        Git ''stash'' [] [''pop'']]"

text \<open>The line printed when the head branch is found on the remote (lines 318 to 321).\<close>

definition exists_message :: "string \<Rightarrow> string" where
  "exists_message branch =
     ''Pull request branch '' @ quoted branch
     @ '' already exists as remote branch '' @ quoted (''origin/'' @ branch)"

text \<open>The pull request from the fork again, now with \<open>PULL_REQUEST_BASE\<close> set.\<close>

definition over_env :: environ where
  "over_env = fork_env(''PULL_REQUEST_BASE'' \<mapsto> ''develop'')"

definition over_cfg :: config where
  "over_cfg = fork_cfg\<lparr>base_override := Some ''develop''\<rparr>"

text \<open>A run with a fixed branch name that is already on the remote.\<close>

definition fixed_env :: environ where
  "fixed_env = master_env(''BRANCH_SUFFIX'' \<mapsto> ''none'')"

definition fixed_world :: world where
  "fixed_world = quiet_world\<lparr>origin_refs := (\<lambda>h. Inr [''origin/master'', ''origin/create-pull-request/patch''])\<rparr>"

definition fixed_resolved :: "event list" where
  "fixed_resolved =
     master_based
     @ [Print (''Pull request branch to create/update set to ''
               @ quoted ''create-pull-request/patch'')]"

text \<open>The scheduled run on master when the branch of its commit is already on the
  remote.\<close>

definition again_world :: world where
  "again_world =
     quiet_world\<lparr>origin_refs := (\<lambda>h. Inr [''origin/create-pull-request/patch-a1b2c3d''])\<rparr>"

text \<open>A \<open>git commit\<close> carries the given author and committer; any other event passes.\<close>

definition commit_as :: "identity \<Rightarrow> event \<Rightarrow> bool" where
  "commit_as idn e =
     (case e of
        Git c kw args \<Rightarrow>
          c \<noteq> ''commit''
          \<or> (map_of kw ''author_name'' = Some (author_name idn)
              \<and> map_of kw ''author_email'' = Some (author_email idn)
              \<and> map_of kw ''committer_name'' = Some (committer_name idn)
              \<and> map_of kw ''committer_email'' = Some (committer_email idn))
      | _ \<Rightarrow> True)"

definition git_environment :: "identity \<Rightarrow> event" where
  "git_environment idn =
     UpdateEnvironment
       [(''GIT_AUTHOR_NAME'', author_name idn),
        (''GIT_AUTHOR_EMAIL'', author_email idn),
        (''GIT_COMMITTER_NAME'', committer_name idn),
        (''GIT_COMMITTER_EMAIL'', committer_email idn)]"

text \<open>A push event whose payload names \<open>bob\<close>, with the author overridden to \<open>carol\<close>.\<close>

definition push_payload :: json where
  "push_payload =
     JObj [(''head_commit'',
            JObj [(''author'', JObj [(''email'', JStr ''bob@example.com''),
                                     (''name'', JStr ''bob'')])])]"

definition carol_world :: world where
  "carol_world =
     quiet_world\<lparr>load_event := (\<lambda>p. Inr push_payload), is_dirty := (\<lambda>h. Inr True)\<rparr>"

definition carol_env :: environ where
  "carol_env =
     map_of [(''GITHUB_TOKEN'', ''t''),
             (''GITHUB_REPOSITORY'', ''octo/repo''),
             (''GITHUB_REF'', ''refs/heads/master''),
             (''GITHUB_EVENT_NAME'', ''push''),
             (''GITHUB_EVENT_PATH'', ''/event.json''),
             (''COMMIT_AUTHOR_NAME'', ''carol''),
             (''COMMIT_AUTHOR_EMAIL'', ''carol@example.com'')]"

definition carol :: identity where
  "carol = \<lparr>author_name = ''carol'', author_email = ''carol@example.com'',
            committer_name = ''carol'', committer_email = ''carol@example.com''\<rparr>"

definition carol_cfg :: config where
  "carol_cfg =
     \<lparr>github_token = ''t'', github_repository = ''octo/repo'',
      github_ref = ''refs/heads/master'', event_name = ''push'',
      event_data = push_payload, ident = carol,
      branch_prefix = ''create-pull-request/patch'', base_override = None\<rparr>"

definition carol_started :: "event list" where
  "carol_started =
     [LoadEvent ''/event.json'', OpenRepo,
      Print (''Configuring git author as '' @ quoted ''carol <carol@example.com>''),
      Print (''Configuring git committer as '' @ quoted ''carol <carol@example.com>''),
      git_environment carol]"

text \<open>What \<open>process_event\<close> reads from the environment for the commit and the pull
  request, and the owner part of \<open>owner/repo\<close>.\<close>

definition commit_message_of :: "environ \<Rightarrow> string" where
  "commit_message_of env =
     getenv env ''COMMIT_MESSAGE'' ''Auto-committed changes by create-pull-request action''"

definition pull_title :: "environ \<Rightarrow> string" where
  "pull_title env =
     getenv env ''PULL_REQUEST_TITLE'' ''Auto-generated by create-pull-request action''"

definition pull_body :: "environ \<Rightarrow> string" where
  "pull_body env =
     getenv env ''PULL_REQUEST_BODY''
       (''Auto-generated pull request by ''
        @ ''[create-pull-request](https://github.com/peter-evans/create-pull-request) GitHub Action'')"

definition owner_of :: "string \<Rightarrow> string" where
  "owner_of repo =
     (case split_on CHR ''/'' repo of [] \<Rightarrow> [] | owner # rest \<Rightarrow> owner)"

definition updated_message :: "pull \<Rightarrow> string \<Rightarrow> string \<Rightarrow> string" where
  "updated_message pr branch base =
     ''Updated pull request #'' @ str_int (number pr) @ '' ('' @ branch @ '' => '' @ base @ '')''"

definition metadata_of :: "world \<Rightarrow> environ \<Rightarrow> pull \<Rightarrow> unit prog" where
  "metadata_of w env pr =
     set_outputs_and_metadata w pr (env ''PULL_REQUEST_LABELS'') (env ''PULL_REQUEST_ASSIGNEES'')
       (env ''PULL_REQUEST_MILESTONE'') (env ''PULL_REQUEST_REVIEWERS'')
       (env ''PULL_REQUEST_TEAM_REVIEWERS'') (env ''PROJECT_NAME'') (env ''PROJECT_COLUMN_NAME'')"

definition create_call :: "environ \<Rightarrow> string \<Rightarrow> string \<Rightarrow> event" where
  "create_call env base branch = Api (CreatePull (pull_title env) (pull_body env) base branch)"

definition lookup_call :: "string \<Rightarrow> string \<Rightarrow> string \<Rightarrow> event" where
  "lookup_call repo base branch = Api (GetPulls ''open'' base (owner_of repo @ '':'' @ branch))"

text \<open>The scheduled run on master with changes to publish, when creating the pull request
  is answered with status 422: once with no open pull request to be found, once with
  pull request 12.\<close>

definition pull_12 :: pull where
  "pull_12 = \<lparr>number = 12, pull_id = 1200\<rparr>"

definition stale_world :: world where
  "stale_world =
     quiet_world\<lparr>is_dirty := (\<lambda>h. Inr True),
                 api_pull := (\<lambda>h c. Inl (GithubException 422 JNull))\<rparr>"

definition found_world :: world where
  "found_world = stale_world\<lparr>api_pulls := (\<lambda>h c. Inr [pull_12])\<rparr>"

definition master_changed :: "event list" where
  "master_changed =
     master_prepared
     @ [Print (checking_message False ''create-pull-request/patch-a1b2c3d'' ''master''),
        IsDirty,
        Print ''Modified or untracked files detected.'']"

definition master_pushed :: "event list" where
  "master_pushed =
     master_changed
     @ [Print (''Pushing changes to '' @ quoted ''origin/create-pull-request/patch-a1b2c3d''),
        Git ''add'' [] [''-A''],
        Print (''author_name=alice, author_email=alice@users.noreply.github.com, ''
               @ ''committer_name=alice, committer_email=alice@users.noreply.github.com''),
        Git ''commit''
          [(''message'', ''Auto-committed changes by create-pull-request action''),
           (''author_name'', ''alice''),
           (''author_email'', ''alice@users.noreply.github.com''),
           (''committer_name'', ''alice''),
           (''committer_email'', ''alice@users.noreply.github.com'')] [],
        Git ''push'' []
          [''-f'', ''https://x-access-token:t@github.com/octo/repo'',
           ''HEAD:refs/heads/create-pull-request/patch-a1b2c3d'']]"

definition master_connected :: "event list" where
  "master_connected = master_pushed @ [Print [], Api (GetRepo ''t'' ''octo/repo'')]"

text \<open>What can be in the trace when the head branch has been resolved and looked up on
  the remote: the start, the checkout of the base, the short hash and the listing of the
  remote branches; and the same without any checkout.\<close>

definition resolving :: "string \<Rightarrow> event \<Rightarrow> bool" where
  "resolving base e =
     (local_event e \<or> stash_checkout base e
      \<or> e = Git ''rev-parse'' [] [''--short'', ''HEAD''] \<or> e = OriginRefs)"

definition reading :: "event \<Rightarrow> bool" where
  "reading e =
     (local_event e \<or> e = Git ''rev-parse'' [] [''--short'', ''HEAD''] \<or> e = OriginRefs)"

text \<open>The scheduled run on master with \<open>PULL_REQUEST_BASE\<close> set to \<open>develop\<close>, when the
  branch of its commit is already on the remote.\<close>

definition dev_env :: environ where
  "dev_env = master_env(''PULL_REQUEST_BASE'' \<mapsto> ''develop'')"

definition dev_cfg :: config where
  "dev_cfg = master_cfg\<lparr>base_override := Some ''develop''\<rparr>"

definition dev_resolved :: "event list" where
  "dev_resolved =
     alice_started
     @ [Print (''Overriding the base with branch '' @ quoted ''develop''),
        Print (''Checking out branch '' @ quoted ''develop''),
        Git ''stash'' [] [''--include-untracked''],
        Git ''checkout'' [] [''develop''],
        Git ''stash'' [] [''pop''],
        Git ''rev-parse'' [] [''--short'', ''HEAD''],
        Print (''Pull request branch to create/update set to ''
               @ quoted ''create-pull-request/patch-a1b2c3d'')]"

section \<open>Proofs\<close>

subsection \<open>Running a step\<close>

lemmas run_defs = ret_def bnd_def seq_def emit_def print_def sys_exit_def raise_def call_def
  lift_def environ_get_def

lemma startswith_append: "startswith (p @ s) p"
  by (induction p) simp_all

subsection \<open>Counting the events a step adds\<close>

lemma adds_ret: "adds P 0 (ret x)"
  by (simp add: adds_def ret_def)

lemma adds_raise: "adds P 0 (raise x)"
  by (simp add: adds_def raise_def)

lemma adds_sys_exit: "adds P 0 (sys_exit n)"
  by (simp add: adds_def sys_exit_def)

lemma adds_lift: "adds P 0 (lift r)"
  by (cases r) (simp_all add: lift_def adds_raise adds_ret)

lemma adds_environ_get: "adds P 0 (environ_get env k)"
  by (cases "env k") (simp_all add: environ_get_def adds_raise adds_ret)

lemma adds_emit: "\<not> P e \<Longrightarrow> adds P 0 (emit e)"
  by (simp add: adds_def emit_def)

lemma adds_print: "\<not> P (Print s) \<Longrightarrow> adds P 0 (print s)"
  by (simp add: print_def adds_emit)

lemma adds_call: "\<not> P e \<Longrightarrow> adds P 0 (call e answer)"
  by (simp add: adds_def call_def)

lemma adds_call_one: "adds P 1 (call e answer)"
  by (simp add: adds_def call_def)

lemma adds_bnd:
  assumes "adds P j m" and "\<And>x. adds P k (f x)"
  shows "adds P (j + k) (bnd m f)"
  unfolding adds_def
proof
  fix h
  from assms(1) obtain es where es: "snd (m h) = h @ es" "length (filter P es) \<le> j"
    unfolding adds_def by blast
  show "\<exists>es. snd (bnd m f h) = h @ es \<and> length (filter P es) \<le> j + k"
  proof (cases "fst (m h)")
    case (Inl s)
    then have "bnd m f h = (Inl s, h @ es)"
      using es(1) by (cases "m h") (simp add: bnd_def)
    then show ?thesis using es(2) by simp
  next
    case (Inr x)
    then have r: "bnd m f h = f x (h @ es)"
      using es(1) by (cases "m h") (simp add: bnd_def)
    from assms(2) obtain es' where
      "snd (f x (h @ es)) = (h @ es) @ es'" "length (filter P es') \<le> k"
      unfolding adds_def by blast
    then show ?thesis using es(2) r by (intro exI[of _ "es @ es'"]) simp
  qed
qed

lemma adds_bnd0: "adds P 0 m \<Longrightarrow> (\<And>x. adds P k (f x)) \<Longrightarrow> adds P k (bnd m f)"
  using adds_bnd[of P 0 m k f] by simp

lemma adds_bnd_last: "adds P k m \<Longrightarrow> (\<And>x. adds P 0 (f x)) \<Longrightarrow> adds P k (bnd m f)"
  using adds_bnd[of P k m 0 f] by simp

lemma adds_seq0: "adds P 0 m \<Longrightarrow> adds P k n \<Longrightarrow> adds P k (seq m n)"
  by (simp add: seq_def adds_bnd0)

lemma adds_seq_last: "adds P k m \<Longrightarrow> adds P 0 n \<Longrightarrow> adds P k (seq m n)"
  by (simp add: seq_def adds_bnd_last)

lemma adds_block: "(\<And>m. m \<in> set ms \<Longrightarrow> adds P 0 m) \<Longrightarrow> adds P 0 (block ms)"
  by (induction ms) (simp_all add: adds_ret adds_seq0)

lemma adds_try_base:
  assumes "adds P 0 m" and "adds P 0 handler"
  shows "adds P 0 (try_base m handler)"
  unfolding adds_def
proof
  fix h
  from assms(1) obtain es where es: "snd (m h) = h @ es" "length (filter P es) \<le> 0"
    unfolding adds_def by blast
  show "\<exists>es. snd (try_base m handler h) = h @ es \<and> length (filter P es) \<le> 0"
  proof (cases "fst (m h)")
    case (Inr x)
    then have "try_base m handler h = (Inr x, h @ es)"
      using es(1) by (cases "m h") (simp add: try_base_def)
    then show ?thesis using es(2) by simp
  next
    case (Inl s)
    then have r: "try_base m handler h = handler (h @ es)"
      using es(1) by (cases "m h") (simp add: try_base_def)
    from assms(2) obtain es' where
      "snd (handler (h @ es)) = (h @ es) @ es'" "length (filter P es') \<le> 0"
      unfolding adds_def by blast
    then show ?thesis using es(2) r by (intro exI[of _ "es @ es'"]) simp
  qed
qed

lemma adds_try_github:
  assumes "adds P j m" and "\<And>status data. adds P k (handler status data)"
  shows "adds P (j + k) (try_github m handler)"
  unfolding adds_def
proof
  fix h
  from assms(1) obtain es where es: "snd (m h) = h @ es" "length (filter P es) \<le> j"
    unfolding adds_def by blast
  show "\<exists>es. snd (try_github m handler h) = h @ es \<and> length (filter P es) \<le> j + k"
  proof (cases "\<exists>status data. fst (m h) = Inl (Raise (GithubException status data))")
    case False
    then have "try_github m handler h = m h"
      by (cases "m h") (auto simp: try_github_def split: sum.splits stop.splits exc.splits)
    then show ?thesis using es by simp
  next
    case True
    then obtain status data where "fst (m h) = Inl (Raise (GithubException status data))"
      by blast
    then have r: "try_github m handler h = handler status data (h @ es)"
      using es(1) by (cases "m h") (simp add: try_github_def)
    from assms(2) obtain es' where
      "snd (handler status data (h @ es)) = (h @ es) @ es'" "length (filter P es') \<le> k"
      unfolding adds_def by blast
    then show ?thesis using es(2) r by (intro exI[of _ "es @ es'"]) simp
  qed
qed

lemma adds_try_github0:
  "adds P 0 m \<Longrightarrow> (\<And>status data. adds P k (handler status data))
   \<Longrightarrow> adds P k (try_github m handler)"
  using adds_try_github[of P 0 m k handler] by simp

lemma adds_try_github_last:
  "adds P k m \<Longrightarrow> (\<And>status data. adds P 0 (handler status data))
   \<Longrightarrow> adds P k (try_github m handler)"
  using adds_try_github[of P k m 0 handler] by simp

lemma adds_git: "\<not> P (Git c kw args) \<Longrightarrow> adds P 0 (git w c kw args)"
  by (simp add: git_def adds_call)

lemma adds_git_do: "\<not> P (Git c kw args) \<Longrightarrow> adds P 0 (git_do w c kw args)"
  by (simp add: git_do_def adds_git adds_seq0 adds_ret)

lemma adds_api_do: "\<not> P (Api c) \<Longrightarrow> adds P 0 (api_do w c)"
  by (simp add: api_do_def adds_call)

lemmas adds0 = adds_ret adds_raise adds_sys_exit adds_lift adds_environ_get adds_emit adds_print
  adds_call adds_bnd0 adds_seq0 adds_block adds_try_base adds_try_github0
  adds_git adds_git_do adds_api_do

lemma adds_none:
  assumes "adds P 0 m" and "m h = (r, h')"
  shows "\<exists>es. h' = h @ es \<and> list_all (\<lambda>e. \<not> P e) es"
proof -
  from assms(1) obtain es where "snd (m h) = h @ es" "length (filter P es) \<le> 0"
    unfolding adds_def by blast
  then have "h' = h @ es" "filter P es = []"
    using assms(2) by simp_all
  then show ?thesis
    by (auto simp: list_all_iff filter_empty_conv)
qed

lemma adds_count:
  assumes "adds P k m"
  shows "length (filter P (snd (m []))) \<le> k"
proof -
  from assms obtain es where "snd (m []) = [] @ es" "length (filter P es) \<le> k"
    unfolding adds_def by blast
  then show ?thesis by simp
qed

subsection \<open>The events of each part of the script\<close>

lemma startup_events:
  "(\<And>e. local_event e \<Longrightarrow> \<not> P e) \<Longrightarrow> adds P 0 (startup w env)"
  unfolding startup_def get_github_event_def get_author_default_def Let_def
  by (auto intro!: adds0 simp: local_event_def split: prod.splits)

lemma startup_local:
  assumes "startup w env [] = (r, h)"
  shows "list_all local_event h"
  using adds_none[OF startup_events[of "\<lambda>e. \<not> local_event e"] assms] by simp

lemma local_no_git: "list_all local_event h \<Longrightarrow> \<not> list_ex is_git h \<and> \<not> list_ex is_api h"
  by (auto simp: list_all_iff list_ex_iff local_event_def is_git_def is_api_def
      split: event.splits)

lemma checkout_branch_events:
  assumes "\<And>s. \<not> P (Print s)" and "\<And>e. stash_checkout b e \<Longrightarrow> \<not> P e"
    and "\<not> P (Git ''checkout'' [(''b'', b)] [''HEAD''])"
  shows "adds P 0 (checkout_branch w r b)"
proof -
  have g: "\<not> P (Git ''stash'' [] [''--include-untracked''])" "\<not> P (Git ''checkout'' [] [b])"
    "\<not> P (Git ''stash'' [] [''pop''])" "\<not> P (Git ''checkout'' [] [''--theirs'', ''.''])"
    "\<not> P (Git ''reset'' [] [])"
    by (rule assms(2), simp add: stash_checkout_def)+
  have t: "adds P 0 (checkout_branch w True b)"
    unfolding checkout_branch_def
    apply simp
    apply (intro adds_seq0 adds_print adds_git_do adds_try_base adds_ret assms(1) g)
    done
  have f: "adds P 0 (checkout_branch w False b)"
    unfolding checkout_branch_def
    apply simp
    apply (intro adds_seq0 adds_print adds_git_do adds_ret assms(1) assms(3))
    done
  show ?thesis using t f by (cases r) simp_all
qed

lemma adds_if: "(c \<Longrightarrow> adds P k a) \<Longrightarrow> (\<not> c \<Longrightarrow> adds P k b) \<Longrightarrow> adds P k (if c then a else b)"
  by simp

lemma adds_case_option:
  "adds P k a \<Longrightarrow> (\<And>x. adds P k (f x)) \<Longrightarrow> adds P k (case v of None \<Rightarrow> a | Some x \<Rightarrow> f x)"
  by (cases v) simp_all

lemma adds_case_prod:
  "(\<And>x y. adds P k (f x y)) \<Longrightarrow> adds P k (case v of (x, y) \<Rightarrow> f x y)"
  by (cases v) simp

lemmas adds_struct = adds_if adds_case_option adds_case_prod adds_seq0 adds_bnd0 adds_ret
  adds_raise adds_sys_exit adds_lift adds_environ_get adds_print adds_git adds_git_do
  adds_api_do adds_try_base

lemma set_base_events:
  assumes "\<And>s. \<not> P (Print s)" and "\<And>b e. stash_checkout b e \<Longrightarrow> \<not> P e"
  shows "adds P 0 (set_base w env cfg)"
proof -
  have g: "\<not> P (Git ''stash'' [] [''--include-untracked''])" "\<not> P (Git ''checkout'' [] [b])"
    "\<not> P (Git ''stash'' [] [''pop''])" "\<not> P (Git ''checkout'' [] [''--theirs'', ''.''])"
    "\<not> P (Git ''reset'' [] [])" for b
    by (rule assms(2)[of b], simp add: stash_checkout_def)+
  have c: "adds P 0 (checkout_branch w True b)" for b
    unfolding checkout_branch_def
    apply simp
    apply (intro adds_struct assms(1) g)
    done
  show ?thesis
    unfolding set_base_def Let_def
    by (intro adds_struct c assms(1))
qed

lemma skip_own_branch_events:
  "(\<And>s. \<not> P (Print s)) \<Longrightarrow> adds P 0 (skip_own_branch cfg base)"
  unfolding skip_own_branch_def by (intro adds_struct)

lemma set_branch_events:
  "(\<And>s. \<not> P (Print s)) \<Longrightarrow> \<not> P (Git ''rev-parse'' [] [''--short'', ''HEAD''])
   \<Longrightarrow> adds P 0 (set_branch w env cfg)"
  unfolding set_branch_def Let_def get_head_short_sha1_def
  by (intro adds_struct adds_call)

lemma check_remote_events:
  "(\<And>s. \<not> P (Print s)) \<Longrightarrow> \<not> P OriginRefs \<Longrightarrow> adds P 0 (check_remote w sfx branch)"
  unfolding check_remote_def remote_branch_exists_def
  by (intro adds_struct adds_call)

lemma adds_case_list:
  "adds P k a \<Longrightarrow> (\<And>x xs. adds P k (f x xs)) \<Longrightarrow> adds P k (case v of [] \<Rightarrow> a | x # xs \<Rightarrow> f x xs)"
  by (cases v) simp_all

lemma adds_mono: "adds P j m \<Longrightarrow> j \<le> k \<Longrightarrow> adds P k m"
  unfolding adds_def by (meson le_trans)

lemma resolve_events:
  assumes "\<And>e. is_prepare e \<Longrightarrow> \<not> P e"
  shows "adds P 0 (resolve w env)"
proof -
  have p: "\<not> P (Print s)" for s
    by (rule assms) (simp add: is_prepare_def)
  have l: "\<not> P e" if "local_event e" for e
    using that by (intro assms) (auto simp: is_prepare_def local_event_def split: event.splits)
  have s: "\<not> P e" if "stash_checkout b e" for b e
    using that by (intro assms) (auto simp: is_prepare_def stash_checkout_def)
  have r: "\<not> P (Git ''rev-parse'' [] [''--short'', ''HEAD''])"
    by (rule assms) (simp add: is_prepare_def)
  show ?thesis
    unfolding resolve_def
    by (intro adds_struct startup_events set_base_events skip_own_branch_events
        set_branch_events p l s r)
qed

lemma prepare_events:
  assumes "\<And>e. is_prepare e \<Longrightarrow> \<not> P e"
  shows "adds P 0 (prepare w env)"
proof -
  have p: "\<not> P (Print s)" for s
    by (rule assms) (simp add: is_prepare_def)
  have s: "\<not> P e" if "stash_checkout b e" for b e
    using that by (intro assms) (auto simp: is_prepare_def stash_checkout_def)
  have n: "\<not> P (Git ''checkout'' [(''b'', b)] [''HEAD''])" for b
    by (rule assms) (simp add: is_prepare_def)
  have r: "\<not> P OriginRefs"
    by (rule assms) (simp add: is_prepare_def)
  show ?thesis
    unfolding prepare_def
    by (intro adds_struct resolve_events check_remote_events checkout_branch_events assms p s n r)
qed

lemmas adds_more = adds_struct adds_case_list adds_emit adds_call adds_try_github0

lemma push_changes_one:
  assumes "\<And>s. \<not> P (Print s)" and "\<And>kw args. \<not> P (Git ''add'' kw args)"
    and "\<And>kw args. \<not> P (Git ''commit'' kw args)"
  shows "adds P 1 (push_changes w idn token repo branch msg)"
  unfolding push_changes_def git_def[of _ "''push''"]
  by (intro adds_seq0 adds_print adds_git_do adds_call_one assms)

lemma push_changes_none:
  assumes "\<And>s. \<not> P (Print s)" and "\<And>c kw args. \<not> P (Git c kw args)"
  shows "adds P 0 (push_changes w idn token repo branch msg)"
  unfolding push_changes_def
  by (intro adds_more assms)

lemma create_project_card_events:
  assumes "\<And>s. \<not> P (Print s)" and "\<not> P (Api (GetProjects ''all''))"
    and "\<And>n. \<not> P (Api (GetColumns n))" and "\<And>a b c. \<not> P (Api (CreateCard a b c))"
  shows "adds P 0 (create_project_card w pname cname pr)"
  unfolding create_project_card_def block.simps
  by (intro adds_more assms)

lemma set_outputs_and_metadata_events:
  assumes "\<And>s. \<not> P (Print s)" and "\<And>s. \<not> P (System s)"
    and "\<And>c. \<not> is_create_pull (Api c) \<Longrightarrow> \<not> is_get_pulls (Api c) \<Longrightarrow> \<not> P (Api c)"
  shows "adds P 0 (set_outputs_and_metadata w pr labels assignees milestone reviewers
                     team_reviewers pname cname)"
proof -
  have a: "\<not> P (Api (AsIssue n))" "\<not> P (Api (EditLabels n xs))" "\<not> P (Api (EditAssignees n xs))"
    "\<not> P (Api (GetMilestone n))" "\<not> P (Api (EditMilestone n k))"
    "\<not> P (Api (CreateReviewRequest n xs))" "\<not> P (Api (CreateTeamReviewRequest n xs))"
    "\<not> P (Api (GetProjects t))" "\<not> P (Api (GetColumns n))" "\<not> P (Api (CreateCard n k t))"
    for n k xs t
    by (rule assms(3); simp add: is_create_pull_def is_get_pulls_def)+
  show ?thesis
    unfolding set_outputs_and_metadata_def block.simps
    by (intro adds_more create_project_card_events assms(1,2) a)
qed

lemma create_or_update_pull_create:
  assumes "\<And>s. \<not> P (Print s)" and "\<And>st b h. \<not> P (Api (GetPulls st b h))"
  shows "adds P 1 (create_or_update_pull w repo title body base branch)"
  unfolding create_or_update_pull_def Let_def
  apply (rule adds_try_github_last)
   apply (rule adds_bnd_last)
    apply (rule adds_call_one)
   apply (intro adds_more assms)
  apply (intro adds_more assms)
  done

lemma create_or_update_pull_lookup:
  assumes "\<And>s. \<not> P (Print s)" and "\<And>t b base h. \<not> P (Api (CreatePull t b base h))"
  shows "adds P 1 (create_or_update_pull w repo title body base branch)"
  unfolding create_or_update_pull_def Let_def
  apply (rule adds_try_github0)
   apply (intro adds_more assms)
  apply (rule adds_if)
   apply (rule adds_case_list)
    apply (rule adds_mono[OF adds_raise], simp)
   apply (rule adds_bnd_last)
    apply (rule adds_call_one)
   apply (intro adds_more assms)
  apply (rule adds_mono[of _ 0])
   apply (intro adds_more assms)
  apply simp
  done

lemma create_or_update_pull_none:
  assumes "\<And>s. \<not> P (Print s)" and "\<And>c. \<not> P (Api c)"
  shows "adds P 0 (create_or_update_pull w repo title body base branch)"
  unfolding create_or_update_pull_def Let_def
  by (intro adds_more assms)

lemma process_event_push:
  assumes "\<And>e. P e \<Longrightarrow> is_push e"
  shows "adds P 1 (process_event w env idn token repo branch base)"
proof -
  have p: "\<not> P (Print s)" "\<not> P (System s)" "\<not> P (Api c)" for s c
    using assms[of "Print s"] assms[of "System s"] assms[of "Api c"]
    by (auto simp: is_push_def)
  have g: "\<not> P (Git ''add'' kw args)" "\<not> P (Git ''commit'' kw args)" for kw args
    using assms[of "Git ''add'' kw args"] assms[of "Git ''commit'' kw args"]
    by (auto simp: is_push_def)
  show ?thesis
    unfolding process_event_def Let_def
    apply (rule adds_seq0)
     apply (intro adds_more p)
    apply (rule adds_bnd_last)
     apply (rule push_changes_one)
       apply (intro p g)+
    apply (intro adds_more create_or_update_pull_none set_outputs_and_metadata_events p)
    done
qed

lemma process_event_create:
  assumes "\<And>e. P e \<Longrightarrow> is_create_pull e"
  shows "adds P 1 (process_event w env idn token repo branch base)"
proof -
  have p: "\<not> P (Print s)" "\<not> P (System s)" "\<not> P (Git c kw args)" for s c kw args
    using assms[of "Print s"] assms[of "System s"] assms[of "Git c kw args"]
    by (auto simp: is_create_pull_def)
  have a: "\<not> P (Api c)" if "\<not> is_create_pull (Api c)" for c
    using assms[of "Api c"] that by auto
  have l: "\<not> P (Api (GetPulls st b h))" "\<not> P (Api (GetRepo t r))" for st b h t r
    by (rule a; simp add: is_create_pull_def)+
  show ?thesis
    unfolding process_event_def Let_def
    apply (rule adds_seq0)
     apply (intro adds_more p)
    apply (rule adds_bnd0)
     apply (rule push_changes_none)
      apply (intro p)+
    apply (rule adds_seq0)
     apply (intro adds_more p)
    apply (rule adds_seq0)
     apply (intro adds_more l)
    apply (rule adds_bnd_last)
     apply (rule create_or_update_pull_create)
      apply (intro p l)+
    apply (intro set_outputs_and_metadata_events p a)
    apply assumption
    done
qed

lemma process_event_lookup:
  assumes "\<And>e. P e \<Longrightarrow> is_get_pulls e"
  shows "adds P 1 (process_event w env idn token repo branch base)"
proof -
  have p: "\<not> P (Print s)" "\<not> P (System s)" "\<not> P (Git c kw args)" for s c kw args
    using assms[of "Print s"] assms[of "System s"] assms[of "Git c kw args"]
    by (auto simp: is_get_pulls_def)
  have a: "\<not> P (Api c)" if "\<not> is_get_pulls (Api c)" for c
    using assms[of "Api c"] that by auto
  have l: "\<not> P (Api (CreatePull t b base h))" "\<not> P (Api (GetRepo t r))" for b base h t r
    by (rule a; simp add: is_get_pulls_def)+
  show ?thesis
    unfolding process_event_def Let_def
    apply (rule adds_seq0)
     apply (intro adds_more p)
    apply (rule adds_bnd0)
     apply (rule push_changes_none)
      apply (intro p)+
    apply (rule adds_seq0)
     apply (intro adds_more p)
    apply (rule adds_seq0)
     apply (intro adds_more l)
    apply (rule adds_bnd_last)
     apply (rule create_or_update_pull_lookup)
      apply (intro p l)+
    apply (intro set_outputs_and_metadata_events p a)
    apply assumption
    done
qed

lemma publish_changes_one:
  assumes "\<And>s. \<not> P (Print s)" and "\<not> P IsDirty" and "\<not> P UntrackedFiles"
    and "adds P 1 (process_event w env (ident cfg) (github_token cfg) (github_repository cfg)
                     branch base)"
  shows "adds P 1 (publish_changes w env cfg remote_exists branch base)"
  unfolding publish_changes_def
  apply (rule adds_seq0)
   apply (intro adds_more assms)
  apply (rule adds_bnd0)
   apply (intro adds_more assms)
  apply (rule adds_if)
   apply (rule adds_seq0)
    apply (intro adds_more assms)
   apply (rule assms(4))
  apply (rule adds_mono[of _ 0])
   apply (intro adds_more assms)
  apply simp
  done

lemma main_one:
  assumes "\<And>e. is_prepare e \<Longrightarrow> \<not> P e" and "\<not> P IsDirty" and "\<not> P UntrackedFiles"
    and "\<And>idn token repo branch base. adds P 1 (process_event w env idn token repo branch base)"
  shows "adds P 1 (main w env)"
proof -
  have p: "\<not> P (Print s)" for s
    by (rule assms(1)) (simp add: is_prepare_def)
  show ?thesis
    unfolding main_def
    apply (rule adds_bnd0)
     apply (rule prepare_events)
     apply (erule assms(1))
    apply (intro adds_case_prod)
    apply (rule publish_changes_one)
       apply (rule p)
      apply (rule assms(2))
     apply (rule assms(3))
    apply (rule assms(4))
    done
qed

lemma prepare_no_publish:
  assumes "prepare w env [] = (r, h)"
  shows "\<not> list_ex is_publish h"
proof -
  have "adds is_publish 0 (prepare w env)"
    by (rule prepare_events) (auto simp: is_prepare_def is_publish_def split: event.splits)
  from adds_none[OF this assms] show ?thesis
    by (auto simp: list_all_iff list_ex_iff)
qed

lemmas script_defs = startup_def get_github_event_def get_author_default_def set_base_def
  skip_own_branch_def set_branch_def get_head_short_sha1_def check_remote_def
  remote_branch_exists_def checkout_branch_def git_def git_do_def try_base_def
  resolve_def prepare_def getenv_def done_or_def Let_def quoted_def

lemma master_startup: "startup quiet_world master_env [] = (Inr master_cfg, alice_started)"
  by (simp add: script_defs run_defs quiet_world_def master_env_def master_cfg_def alice_def
      alice_started_def)

lemma master_set_base: "set_base quiet_world master_env master_cfg alice_started = (Inr ''master'', master_based)"
  by (simp add: script_defs run_defs master_cfg_def master_based_def)

lemma master_resolve:
  "resolve quiet_world master_env [] =
     (Inr (master_cfg, ''master'', ''short-commit-hash'', ''create-pull-request/patch-a1b2c3d''),
      master_resolved)"
  using master_startup master_set_base
  by (simp add: resolve_def skip_own_branch_def set_branch_def get_head_short_sha1_def getenv_def
      run_defs master_resolved_def Let_def quoted_def master_cfg_def master_env_def
      quiet_world_def)

lemma master_prepare:
  "prepare quiet_world master_env [] =
     (Inr (master_cfg, ''master'', ''create-pull-request/patch-a1b2c3d'', False), master_prepared)"
  using master_resolve
  by (simp add: prepare_def check_remote_def remote_branch_exists_def checkout_branch_def
      git_do_def git_def run_defs master_prepared_def quiet_world_def Let_def quoted_def)

lemma returns_ret: "Q x \<Longrightarrow> returns (ret x) Q"
  by (simp add: returns_def ret_def)

lemma returns_bnd:
  assumes "returns m R" and "\<And>x. R x \<Longrightarrow> returns (f x) Q"
  shows "returns (bnd m f) Q"
  using assms unfolding returns_def bnd_def
  by (auto split: prod.splits sum.splits) blast

lemma returns_bnd_any: "(\<And>x. returns (f x) Q) \<Longrightarrow> returns (bnd m f) Q"
  unfolding returns_def bnd_def
  by (auto split: prod.splits sum.splits)

lemma returns_seq: "returns n Q \<Longrightarrow> returns (seq m n) Q"
  by (simp add: seq_def returns_bnd_any)

lemma returns_case_prod: "(\<And>x y. returns (f x y) Q) \<Longrightarrow> returns (case v of (x, y) \<Rightarrow> f x y) Q"
  by (cases v) simp

lemma returns_environ_get: "returns (environ_get env k) (\<lambda>v. env k = Some v)"
  by (cases "env k") (simp_all add: returns_def environ_get_def raise_def ret_def)

lemma startup_returns:
  "returns (startup w env)
     (\<lambda>cfg. env ''GITHUB_REPOSITORY'' = Some (github_repository cfg)
         \<and> env ''GITHUB_REF'' = Some (github_ref cfg)
         \<and> branch_prefix cfg = getenv env ''PULL_REQUEST_BRANCH'' ''create-pull-request/patch''
         \<and> base_override cfg = env ''PULL_REQUEST_BASE''
         \<and> committer_name (ident cfg) = getenv env ''COMMITTER_NAME'' (author_name (ident cfg))
         \<and> committer_email (ident cfg) = getenv env ''COMMITTER_EMAIL'' (author_email (ident cfg))
         \<and> (\<forall>a. env ''COMMIT_AUTHOR_NAME'' = Some a \<longrightarrow> author_name (ident cfg) = a)
         \<and> (\<forall>a. env ''COMMIT_AUTHOR_EMAIL'' = Some a \<longrightarrow> author_email (ident cfg) = a))"
  unfolding startup_def Let_def
  apply (rule returns_bnd_any)
  apply (rule returns_bnd[OF returns_environ_get])
  apply (rule returns_bnd[OF returns_environ_get])
  apply (rule returns_bnd_any)
  apply (rule returns_bnd_any)
  apply (rule returns_bnd_any)
  apply (rule returns_bnd_any)
  apply (rule returns_case_prod)
  apply (rule returns_seq)
  apply (rule returns_seq)
  apply (rule returns_seq)
  apply (rule returns_seq)
  apply (rule returns_ret)
  apply (simp add: getenv_def)
  done

lemma startup_cfg:
  assumes "startup w env h = (Inr cfg, h')"
  shows "env ''GITHUB_REPOSITORY'' = Some (github_repository cfg)
         \<and> env ''GITHUB_REF'' = Some (github_ref cfg)
         \<and> branch_prefix cfg = getenv env ''PULL_REQUEST_BRANCH'' ''create-pull-request/patch''
         \<and> base_override cfg = env ''PULL_REQUEST_BASE''
         \<and> committer_name (ident cfg) = getenv env ''COMMITTER_NAME'' (author_name (ident cfg))
         \<and> committer_email (ident cfg) = getenv env ''COMMITTER_EMAIL'' (author_email (ident cfg))
         \<and> (\<forall>a. env ''COMMIT_AUTHOR_NAME'' = Some a \<longrightarrow> author_name (ident cfg) = a)
         \<and> (\<forall>a. env ''COMMIT_AUTHOR_EMAIL'' = Some a \<longrightarrow> author_email (ident cfg) = a)"
  using startup_returns[of w env] assms unfolding returns_def by blast

lemma checkout_branch_result:
  assumes "checkout_branch w True b h = (r, h')"
  shows "\<exists>es. h' = h @ es \<and> list_all (\<lambda>e. local_event e \<or> stash_checkout b e) es"
proof -
  have "adds (\<lambda>e. \<not> (local_event e \<or> stash_checkout b e)) 0 (checkout_branch w True b)"
    unfolding checkout_branch_def
    apply simp
    apply (intro adds_struct)
    apply (simp_all add: local_event_def stash_checkout_def)
    done
  from adds_none[OF this assms] show ?thesis by simp
qed

lemma set_base_result:
  assumes "set_base w env cfg h0 = (Inr base, h1)"
  shows "\<exists>es. h1 = h0 @ es \<and> list_all (\<lambda>e. local_event e \<or> stash_checkout base e) es
              \<and> (base_override cfg = None \<and> \<not> startswith (github_ref cfg) ''refs/pull/''
                  \<longrightarrow> list_all local_event es)"
proof (cases "base_override cfg")
  case (Some b)
  obtain r h' where c: "checkout_branch w True b
      (h0 @ [Print (''Overriding the base with branch '' @ quoted b)]) = (r, h')"
    by fastforce
  from assms Some c have "base = b" "h1 = h'"
    by (auto simp: set_base_def run_defs split: sum.splits)
  with checkout_branch_result[OF c] Some show ?thesis
    by (auto simp: local_event_def)
next
  case None
  show ?thesis
  proof (cases "startswith (github_ref cfg) ''refs/pull/''")
    case False
    with assms None show ?thesis
      by (auto simp: set_base_def run_defs Let_def local_event_def split: if_splits)
  next
    case True
    from assms None True have
      e: "env ''GITHUB_HEAD_REF'' = Some base"
      by (auto simp: set_base_def run_defs split: sum.splits if_splits option.splits prod.splits)
    obtain r h' where c: "checkout_branch w True base
      (h0 @ [Print (''Removing the merge commit by switching to the pull request head branch ''
                    @ quoted base)]) = (r, h')"
      by fastforce
    from assms None True e c have "h1 = h'"
      by (auto simp: set_base_def run_defs split: sum.splits if_splits)
    with checkout_branch_result[OF c] True show ?thesis
      by (auto simp: local_event_def)
  qed
qed

lemma own_startup: "startup quiet_world own_env [] = (Inr own_cfg, alice_started)"
  by (simp add: script_defs run_defs quiet_world_def own_env_def master_env_def own_cfg_def
      master_cfg_def alice_def alice_started_def)

lemma own_set_base:
  "set_base quiet_world own_env own_cfg alice_started
     = (Inr ''create-pull-request/patch-old'', own_based)"
  by (simp add: script_defs run_defs own_cfg_def master_cfg_def own_based_def quiet_world_def)

lemma own_prefix: "startswith ''create-pull-request/patch-old'' (branch_prefix own_cfg)"
  by (simp add: own_cfg_def master_cfg_def)

lemma local_not_publish: "local_event e \<Longrightarrow> \<not> is_publish e"
  by (cases e) (simp_all add: local_event_def is_publish_def)

lemma stash_checkout_not_publish: "stash_checkout b e \<Longrightarrow> \<not> is_publish e"
  by (auto simp: stash_checkout_def is_publish_def)

lemma list_all_local_or: "list_all local_event h \<Longrightarrow> list_all (\<lambda>e. local_event e \<or> Q e) h"
  by (simp add: list_all_iff)

lemma bnd_Inr_elim:
  assumes "bnd m f h = (Inr y, h')"
  obtains x h1 where "m h = (Inr x, h1)" and "f x h1 = (Inr y, h')"
  using assms by (auto simp: bnd_def split: prod.splits sum.splits)

lemma seq_Inr_elim:
  assumes "seq m n h = (Inr y, h')"
  obtains x h1 where "m h = (Inr x, h1)" and "n h1 = (Inr y, h')"
  using assms by (auto simp: seq_def bnd_def split: prod.splits sum.splits)

lemma extends_bnd:
  assumes "\<And>x. adds P k (f x)"
  shows "\<exists>es. snd (bnd m f h) = snd (m h) @ es"
proof (cases "m h")
  case (Pair r h')
  show ?thesis
  proof (cases r)
    case (Inl s)
    with Pair show ?thesis by (simp add: bnd_def)
  next
    case (Inr x)
    from assms[of x] obtain es where "snd (f x h') = h' @ es"
      unfolding adds_def by blast
    with Pair Inr show ?thesis by (simp add: bnd_def)
  qed
qed

lemma extends_seq: "adds P k n \<Longrightarrow> \<exists>es. snd (seq m n h) = snd (m h) @ es"
  unfolding seq_def by (rule extends_bnd)

lemma skip_own_branch_Inr:
  "skip_own_branch cfg base h = (Inr x, h') \<Longrightarrow> \<not> startswith base (branch_prefix cfg) \<and> h' = h"
  by (auto simp: skip_own_branch_def run_defs split: if_splits)

lemma resolve_parts:
  assumes "resolve w env [] = (Inr (cfg, base, sfx, branch), h)"
  shows "\<exists>h0 h1. startup w env [] = (Inr cfg, h0) \<and> set_base w env cfg h0 = (Inr base, h1)
           \<and> \<not> startswith base (branch_prefix cfg)
           \<and> set_branch w env cfg h1 = (Inr (sfx, branch), h)"
  using assms unfolding resolve_def
  apply (elim bnd_Inr_elim seq_Inr_elim)
  apply (drule skip_own_branch_Inr)
  apply (auto simp: ret_def split: prod.splits)
  done

lemma startswith_self: "startswith p p"
  using startswith_append[of p "[]"] by simp

lemma set_branch_result:
  assumes "set_branch w env cfg h1 = (Inr (sfx, branch), h)"
  shows "startswith branch (branch_prefix cfg)
         \<and> (sfx = ''none'' \<longrightarrow> branch = branch_prefix cfg)
         \<and> (\<exists>es. h = h1 @ es
               \<and> list_all (\<lambda>e. local_event e \<or> e = Git ''rev-parse'' [] [''--short'', ''HEAD'']) es)"
  using assms
  by (auto simp: set_branch_def get_head_short_sha1_def Let_def run_defs local_event_def
      startswith_append startswith_self split: if_splits sum.splits)

lemma checkout_branch_starts:
  "\<exists>rest. snd (checkout_branch w True b h) =
            h @ [Print (''Checking out branch '' @ quoted b),
                 Git ''stash'' [] [''--include-untracked'']] @ rest
          \<and> (\<forall>out. git_exec w (h @ [Print (''Checking out branch '' @ quoted b)])
                       ''stash'' [] [''--include-untracked''] = Inr out
                \<longrightarrow> (\<exists>rest'. rest = Git ''checkout'' [] [b] # rest'))"
  by (auto simp: checkout_branch_def git_do_def git_def try_base_def run_defs split: sum.splits)

lemma checkout_branch_no_exit: "fst (checkout_branch w r b h) \<noteq> Inl (Exit n)"
  by (auto simp: checkout_branch_def git_do_def git_def try_base_def run_defs split: sum.splits)

lemma trace_after_prepare: "\<exists>es. trace_of w env = snd (prepare w env []) @ es"
  unfolding trace_of_def run_def main_def
  apply (rule extends_bnd[where P = "\<lambda>e. False" and k = 1])
  apply (rule adds_case_prod)+
  apply (rule publish_changes_one)
     apply simp
    apply simp
   apply simp
  apply (rule process_event_push)
  apply simp
  done

lemma prepare_after_resolve: "\<exists>es. snd (prepare w env []) = snd (resolve w env []) @ es"
  unfolding prepare_def
  apply (rule extends_bnd[where P = "\<lambda>e. False" and k = 0])
  apply (intro adds_struct check_remote_events checkout_branch_events)
       apply simp_all
  done

lemma resolve_after_set_base:
  assumes "startup w env [] = (Inr cfg, h0)"
  shows "\<exists>es. snd (resolve w env []) = snd (set_base w env cfg h0) @ es"
proof -
  have "resolve w env [] =
          bnd (set_base w env cfg) (\<lambda>base.
            seq (skip_own_branch cfg base)
            (bnd (set_branch w env cfg) (\<lambda>(branch_suffix, branch).
            ret (cfg, base, branch_suffix, branch)))) h0"
    using assms by (simp add: resolve_def bnd_def)
  moreover have "\<exists>es. snd (bnd (set_base w env cfg) (\<lambda>base.
            seq (skip_own_branch cfg base)
            (bnd (set_branch w env cfg) (\<lambda>(branch_suffix, branch).
            ret (cfg, base, branch_suffix, branch)))) h0) = snd (set_base w env cfg h0) @ es"
    apply (rule extends_bnd[where P = "\<lambda>e. False" and k = 0])
    apply (intro adds_struct skip_own_branch_events set_branch_events)
      apply simp_all
    done
  ultimately show ?thesis by simp
qed

lemma trace_after_set_base:
  assumes "startup w env [] = (Inr cfg, h0)"
  shows "\<exists>es. trace_of w env = snd (set_base w env cfg h0) @ es"
proof -
  from trace_after_prepare obtain e1 where "trace_of w env = snd (prepare w env []) @ e1" ..
  moreover from prepare_after_resolve obtain e2 where
    "snd (prepare w env []) = snd (resolve w env []) @ e2" ..
  moreover from resolve_after_set_base[OF assms] obtain e3 where
    "snd (resolve w env []) = snd (set_base w env cfg h0) @ e3" ..
  ultimately show ?thesis by simp
qed

lemma local_not_checks_out: "local_event e \<Longrightarrow> \<not> checks_out b e"
  by (cases e) (simp_all add: local_event_def checks_out_def)

lemma stash_checkout_checks_out: "stash_checkout base e \<Longrightarrow> checks_out b e \<Longrightarrow> b = base"
  by (auto simp: stash_checkout_def checks_out_def)

lemma resolve_no_head_checkout:
  assumes "resolve w env [] = (Inr (cfg, base, sfx, branch), h)"
  shows "\<not> list_ex (checks_out branch) h"
proof -
  from resolve_parts[OF assms] obtain h0 h1 where
    s: "startup w env [] = (Inr cfg, h0)" and b: "set_base w env cfg h0 = (Inr base, h1)"
    and n: "\<not> startswith base (branch_prefix cfg)"
    and r: "set_branch w env cfg h1 = (Inr (sfx, branch), h)"
    by blast
  from set_base_result[OF b] obtain e1 where
    e1: "h1 = h0 @ e1" "list_all (\<lambda>e. local_event e \<or> stash_checkout base e) e1"
    by blast
  from set_branch_result[OF r] obtain e2 where
    p: "startswith branch (branch_prefix cfg)"
    and e2: "h = h1 @ e2"
      "list_all (\<lambda>e. local_event e \<or> e = Git ''rev-parse'' [] [''--short'', ''HEAD'']) e2"
    by blast
  have ne: "branch \<noteq> base"
    using n p by auto
  have "\<not> checks_out branch e" if "e \<in> set h" for e
  proof -
    from that e1(1) e2(1) consider "e \<in> set h0" | "e \<in> set e1" | "e \<in> set e2"
      by auto
    then show ?thesis
    proof cases
      case 1
      with startup_local[OF s] show ?thesis
        by (auto simp: list_all_iff dest: local_not_checks_out)
    next
      case 2
      with e1(2) have "local_event e \<or> stash_checkout base e"
        by (simp add: list_all_iff)
      then show ?thesis
        using ne local_not_checks_out stash_checkout_checks_out by blast
    next
      case 3
      with e2(2) have "local_event e \<or> e = Git ''rev-parse'' [] [''--short'', ''HEAD'']"
        by (simp add: list_all_iff)
      then show ?thesis
        using local_not_checks_out by (auto simp: checks_out_def)
    qed
  qed
  then show ?thesis
    by (auto simp: list_ex_iff)
qed

lemma resolve_no_publish:
  assumes "resolve w env [] = (r, h)"
  shows "\<not> list_ex is_publish h"
proof -
  have "adds is_publish 0 (resolve w env)"
    by (rule resolve_events) (auto simp: is_prepare_def is_publish_def split: event.splits)
  from adds_none[OF this assms] show ?thesis
    by (auto simp: list_all_iff list_ex_iff)
qed

lemma check_remote_exists:
  assumes "origin_refs w h = Inr refs" and "''origin/'' @ branch \<in> set refs"
  shows "check_remote w sfx branch h =
           (if sfx = ''short-commit-hash'' then
              (Inl (Exit 0),
               h @ [OriginRefs, Print (exists_message branch),
                    Print (''Pull request branch '' @ quoted branch
                           @ '' already exists for this commit. Skipping.'')])
            else if sfx = ''timestamp'' \<or> sfx = ''random'' then
              (Inl (Exit 1),
               h @ [OriginRefs, Print (exists_message branch),
                    Print (''Pull request branch '' @ quoted branch
                           @ '' collided with a branch of the same name. Please re-run.'')])
            else (Inr True, h @ [OriginRefs, Print (exists_message branch)]))"
  using assms
  by (simp add: check_remote_def remote_branch_exists_def run_defs list_ex_iff exists_message_def)

lemma run_stops_at_check_remote:
  assumes "resolve w env [] = (Inr (cfg, base, sfx, branch), h)"
    and "check_remote w sfx branch h = (Inl s, h')"
  shows "run w env = (Inl s, h')"
  using assms by (simp add: run_def main_def prepare_def bnd_def)

lemma prepare_at_checkout:
  assumes "resolve w env [] = (Inr (cfg, base, sfx, branch), h)"
    and "check_remote w sfx branch h = (Inr re, h')"
  shows "snd (prepare w env []) = snd (checkout_branch w re branch h')"
  using assms
  by (cases "checkout_branch w re branch h'")
    (auto simp: prepare_def bnd_def seq_def ret_def split: sum.splits)

lemma resolve_origin_refs: "resolve (w\<lparr>origin_refs := f\<rparr>) env = resolve w env"
  by (simp add: resolve_def startup_def get_github_event_def get_author_default_def
      set_base_def set_branch_def get_head_short_sha1_def checkout_branch_def git_do_def
      git_def format_field_def to_text_def get_random_suffix_def
      cong: if_cong option.case_cong sum.case_cong json.case_cong)

lemma fixed_resolve:
  "resolve quiet_world fixed_env [] =
     (Inr (master_cfg, ''master'', ''none'', ''create-pull-request/patch''), fixed_resolved)"
proof -
  have a: "startup quiet_world fixed_env [] = (Inr master_cfg, alice_started)"
    by (simp add: script_defs run_defs quiet_world_def fixed_env_def master_env_def
        master_cfg_def alice_def alice_started_def)
  have b: "set_base quiet_world fixed_env master_cfg alice_started = (Inr ''master'', master_based)"
    by (simp add: script_defs run_defs master_cfg_def master_based_def)
  show ?thesis
    using a b
    by (simp add: resolve_def skip_own_branch_def set_branch_def getenv_def
        run_defs fixed_resolved_def Let_def quoted_def master_cfg_def fixed_env_def)
qed

lemma startup_environment:
  assumes "startup w env h = (Inr cfg, h')"
  shows "\<exists>hh. h' = hh @ [git_environment (ident cfg)]"
  using assms unfolding startup_def Let_def
  apply (elim bnd_Inr_elim)
  apply (simp only: split_paired_all prod.case)
  apply (elim seq_Inr_elim)
  apply (auto simp: emit_def ret_def git_environment_def)
  done

lemma prepare_cfg:
  assumes "prepare w env [] = (Inr (cfg', base, branch, re), h)"
    and "startup w env [] = (Inr cfg, h0)"
  shows "cfg' = cfg"
proof -
  from assms(1) obtain x h1 where
    r: "resolve w env [] = (Inr x, h1)"
    and k: "(case x of (cfg, base, branch_suffix, branch) \<Rightarrow>
               bnd (check_remote w branch_suffix branch) (\<lambda>remote_exists.
               seq (checkout_branch w remote_exists branch)
               (ret (cfg, base, branch, remote_exists)))) h1 = (Inr (cfg', base, branch, re), h)"
    unfolding prepare_def by (elim bnd_Inr_elim)
  obtain c b s br where x: "x = (c, b, s, br)"
    by (cases x) auto
  from k have "c = cfg'"
    unfolding x prod.case
    by (elim bnd_Inr_elim seq_Inr_elim) (simp add: ret_def)
  moreover from resolve_parts[OF r[unfolded x]] assms(2) have "c = cfg"
    by auto
  ultimately show ?thesis by simp
qed

lemma push_changes_commit_as:
  "adds (\<lambda>e. \<not> commit_as idn e) 0 (push_changes w idn token repo branch msg)"
  unfolding push_changes_def
  by (intro adds_more) (simp_all add: commit_as_def)

lemma process_event_commit_as:
  "adds (\<lambda>e. \<not> commit_as idn e) 0 (process_event w env idn token repo branch base)"
  unfolding process_event_def Let_def
  by (intro adds_more push_changes_commit_as create_or_update_pull_none
      set_outputs_and_metadata_events)
    (simp_all add: commit_as_def)

lemma publish_changes_none:
  assumes "\<And>s. \<not> P (Print s)" and "\<not> P IsDirty" and "\<not> P UntrackedFiles"
    and "adds P 0 (process_event w env (ident cfg) (github_token cfg) (github_repository cfg)
                     branch base)"
  shows "adds P 0 (publish_changes w env cfg remote_exists branch base)"
  unfolding publish_changes_def
  by (intro adds_more assms)

lemma prepare_commit_as:
  assumes "prepare w env [] = (r, h)"
  shows "list_all (commit_as idn) h"
proof -
  have "adds (\<lambda>e. \<not> commit_as idn e) 0 (prepare w env)"
    by (rule prepare_events) (auto simp: is_prepare_def commit_as_def split: event.splits)
  from adds_none[OF this assms] show ?thesis by simp
qed

lemma run_commit_as:
  assumes "startup w env [] = (Inr cfg, h0)"
  shows "list_all (commit_as (ident cfg)) (trace_of w env)"
proof -
  obtain r h where p: "prepare w env [] = (r, h)"
    by fastforce
  have ph: "list_all (commit_as (ident cfg)) h"
    by (rule prepare_commit_as[OF p])
  show ?thesis
  proof (cases r)
    case (Inl s)
    with p have "trace_of w env = h"
      by (simp add: trace_of_def run_def main_def bnd_def)
    with ph show ?thesis by simp
  next
    case (Inr x)
    obtain cfg' base branch re where x: "x = (cfg', base, branch, re)"
      by (cases x) auto
    from prepare_cfg[OF p[unfolded Inr x] assms] have c: "cfg' = cfg" .
    have t: "trace_of w env = snd (publish_changes w env cfg re branch base h)"
      using p Inr x c by (simp add: trace_of_def run_def main_def bnd_def)
    have "adds (\<lambda>e. \<not> commit_as (ident cfg) e) 0 (publish_changes w env cfg re branch base)"
    proof (rule publish_changes_none)
      show "adds (\<lambda>e. \<not> commit_as (ident cfg) e) 0
              (process_event w env (ident cfg) (github_token cfg) (github_repository cfg)
                 branch base)"
        by (rule process_event_commit_as)
    qed (simp_all add: commit_as_def)
    from adds_none[OF this, of h] obtain es where
      "snd (publish_changes w env cfg re branch base h) = h @ es"
      "list_all (commit_as (ident cfg)) es"
      by (cases "publish_changes w env cfg re branch base h") auto
    with t ph show ?thesis by simp
  qed
qed

lemma carol_startup: "startup carol_world carol_env [] = (Inr carol_cfg, carol_started)"
  by (simp add: script_defs run_defs format_field_def to_text_def carol_world_def
      quiet_world_def carol_env_def carol_cfg_def carol_def carol_started_def push_payload_def
      git_environment_def)

lemmas publish_defs = main_def publish_changes_def process_event_def push_changes_def
  get_repo_url_def api_do_def create_or_update_pull_def try_github_def
  set_outputs_and_metadata_def

lemma carol_commits:
  "Git ''commit''
     [(''message'', ''Auto-committed changes by create-pull-request action''),
      (''author_name'', ''carol''), (''author_email'', ''carol@example.com''),
      (''committer_name'', ''carol''), (''committer_email'', ''carol@example.com'')] []
   \<in> set (trace_of carol_world carol_env)"
  using carol_startup
  by (simp add: trace_of_def run_def publish_defs script_defs run_defs carol_world_def
      quiet_world_def carol_cfg_def carol_def carol_env_def)

lemma split_on_nonempty: "split_on c s \<noteq> []"
  by (induction s) (auto split: list.splits)

lemma create_pull_reuses:
  assumes "api_pull w h (CreatePull title body base branch) = Inl (GithubException 422 data)"
    and "api_pulls w (h @ [Api (CreatePull title body base branch)])
           (GetPulls ''open'' base (owner_of repo @ '':'' @ branch)) = Inr (pr # prs)"
  shows "create_or_update_pull w repo title body base branch h =
           (Inr pr, h @ [Api (CreatePull title body base branch),
                         Api (GetPulls ''open'' base (owner_of repo @ '':'' @ branch)),
                         Print (updated_message pr branch base)])"
  using assms split_on_nonempty[of "CHR ''/''" repo]
  by (cases "split_on CHR ''/'' repo")
    (simp_all add: create_or_update_pull_def try_github_def run_defs owner_of_def
      updated_message_def Let_def)

lemma create_pull_not_found:
  assumes "api_pull w h (CreatePull title body base branch) = Inl (GithubException 422 data)"
    and "api_pulls w (h @ [Api (CreatePull title body base branch)])
           (GetPulls ''open'' base (owner_of repo @ '':'' @ branch)) = Inr []"
  shows "create_or_update_pull w repo title body base branch h =
           (Inl (Raise IndexError),
            h @ [Api (CreatePull title body base branch),
                 Api (GetPulls ''open'' base (owner_of repo @ '':'' @ branch))])"
  using assms split_on_nonempty[of "CHR ''/''" repo]
  by (cases "split_on CHR ''/'' repo")
    (simp_all add: create_or_update_pull_def try_github_def run_defs owner_of_def Let_def)

lemma create_pull_other_status:
  assumes "api_pull w h (CreatePull title body base branch) = Inl (GithubException status data)"
    and "status \<noteq> 422"
  shows "create_or_update_pull w repo title body base branch h =
           (Inl (Exit 1),
            h @ [Api (CreatePull title body base branch),
                 Print (exc_str w (GithubException status data))])"
  using assms
  by (simp add: create_or_update_pull_def try_github_def run_defs)

lemma create_pull_other_exception:
  assumes "api_pull w h (CreatePull title body base branch) = Inl x"
    and "\<forall>status data. x \<noteq> GithubException status data"
  shows "create_or_update_pull w repo title body base branch h =
           (Inl (Raise x), h @ [Api (CreatePull title body base branch)])"
  using assms
  by (cases x) (simp_all add: create_or_update_pull_def try_github_def run_defs)

lemma process_event_at_create:
  assumes "push_changes w idn token repo branch (commit_message_of env)
             (h @ [Print (''Pushing changes to '' @ quoted (''origin/'' @ branch))])
           = (Inr out, h1)"
    and "api_action w (h1 @ [Print out]) (GetRepo token repo) = None"
  shows "process_event w env idn token repo branch base h =
           bnd (create_or_update_pull w repo (pull_title env) (pull_body env) base branch)
             (metadata_of w env) (h1 @ [Print out, Api (GetRepo token repo)])"
  using assms unfolding metadata_of_def
  by (simp add: process_event_def Let_def commit_message_of_def pull_title_def pull_body_def
      seq_def bnd_def print_def emit_def api_do_def call_def done_or_def)

lemma two_emits:
  assumes "adds P k n"
  shows "\<exists>rest. snd (seq (emit a) (seq (emit b) n) h) = h @ [a, b] @ rest"
proof -
  from assms obtain es where "snd (n (h @ [a, b])) = (h @ [a, b]) @ es"
    unfolding adds_def by blast
  then show ?thesis
    by (simp add: seq_def bnd_def emit_def)
qed

lemma metadata_of_starts:
  "\<exists>rest. snd (metadata_of w env pr h) =
            h @ [System (''echo ::set-env name=PULL_REQUEST_NUMBER::'' @ str_int (number pr)),
                 System (''echo ::set-output name=pr_number::'' @ str_int (number pr))] @ rest"
  unfolding metadata_of_def set_outputs_and_metadata_def block.simps
  apply (rule two_emits[where P = "\<lambda>e. False" and k = 0])
  apply (intro adds_more create_project_card_events)
                      apply simp_all
  done

text \<open>What \<open>checkout_branch\<close> runs on a branch of the remote: stash, checkout, stash pop;
  and when the pop stops for any reason, \<open>checkout --theirs .\<close> and \<open>reset\<close>, after which
  it returns normally. Which side of a conflict git keeps under \<open>--theirs\<close>, and what
  becomes of the stash entry, is decided inside git and is no part of this model.\<close>

lemma checkout_branch_pop_succeeds:
  assumes "git_exec w (h @ [Print (''Checking out branch '' @ quoted b)])
             ''stash'' [] [''--include-untracked''] = Inr o1"
    and "git_exec w (h @ [Print (''Checking out branch '' @ quoted b),
                          Git ''stash'' [] [''--include-untracked'']])
             ''checkout'' [] [b] = Inr o2"
    and "git_exec w (h @ [Print (''Checking out branch '' @ quoted b),
                          Git ''stash'' [] [''--include-untracked''],
                          Git ''checkout'' [] [b]])
             ''stash'' [] [''pop''] = Inr o3"
  shows "checkout_branch w True b h =
           (Inr (), h @ [Print (''Checking out branch '' @ quoted b),
                         Git ''stash'' [] [''--include-untracked''],
                         Git ''checkout'' [] [b],
                         Git ''stash'' [] [''pop'']])"
  using assms
  by (simp add: checkout_branch_def git_do_def git_def try_base_def run_defs)

lemma checkout_branch_pop_fails:
  assumes "git_exec w (h @ [Print (''Checking out branch '' @ quoted b)])
             ''stash'' [] [''--include-untracked''] = Inr o1"
    and "git_exec w (h @ [Print (''Checking out branch '' @ quoted b),
                          Git ''stash'' [] [''--include-untracked'']])
             ''checkout'' [] [b] = Inr o2"
    and "git_exec w (h @ [Print (''Checking out branch '' @ quoted b),
                          Git ''stash'' [] [''--include-untracked''],
                          Git ''checkout'' [] [b]])
             ''stash'' [] [''pop''] = Inl x"
    and "git_exec w (h @ [Print (''Checking out branch '' @ quoted b),
                          Git ''stash'' [] [''--include-untracked''],
                          Git ''checkout'' [] [b],
                          Git ''stash'' [] [''pop'']])
             ''checkout'' [] [''--theirs'', ''.''] = Inr o4"
    and "git_exec w (h @ [Print (''Checking out branch '' @ quoted b),
                          Git ''stash'' [] [''--include-untracked''],
                          Git ''checkout'' [] [b],
                          Git ''stash'' [] [''pop''],
                          Git ''checkout'' [] [''--theirs'', ''.'']])
             ''reset'' [] [] = Inr o5"
  shows "checkout_branch w True b h =
           (Inr (), h @ [Print (''Checking out branch '' @ quoted b),
                         Git ''stash'' [] [''--include-untracked''],
                         Git ''checkout'' [] [b],
                         Git ''stash'' [] [''pop''],
                         Git ''checkout'' [] [''--theirs'', ''.''],
                         Git ''reset'' [] []])"
  using assms
  by (simp add: checkout_branch_def git_do_def git_def try_base_def run_defs)

lemma resolve_commit_hash:
  assumes "startup w env [] = (Inr cfg, h0)"
    and "set_base w env cfg h0 = (Inr base, h1)"
    and "\<not> startswith base (branch_prefix cfg)"
    and "getenv env ''BRANCH_SUFFIX'' ''short-commit-hash'' = ''short-commit-hash''"
    and "git_exec w h1 ''rev-parse'' [] [''--short'', ''HEAD''] = Inr sha"
  shows "resolve w env [] =
           (Inr (cfg, base, ''short-commit-hash'', branch_prefix cfg @ ''-'' @ sha),
            h1 @ [Git ''rev-parse'' [] [''--short'', ''HEAD''],
                  Print (''Pull request branch to create/update set to ''
                         @ quoted (branch_prefix cfg @ ''-'' @ sha))])"
  using assms
  by (simp add: resolve_def skip_own_branch_def set_branch_def get_head_short_sha1_def run_defs)

lemma carol_set_base:
  "set_base carol_world carol_env carol_cfg carol_started
     = (Inr ''master'',
        carol_started
        @ [Print (''Currently checked out base assumed to be branch '' @ quoted ''master'')])"
  by (simp add: script_defs run_defs carol_cfg_def)

lemma list_all_weaken: "list_all P xs \<Longrightarrow> (\<And>x. P x \<Longrightarrow> Q x) \<Longrightarrow> list_all Q xs"
  by (simp add: list_all_iff)

lemma resolve_trace:
  assumes "resolve w env [] = (Inr (cfg, base, sfx, branch), h)"
  shows "list_all (resolving base) h
         \<and> (base_override cfg = None \<and> \<not> startswith (github_ref cfg) ''refs/pull/''
              \<longrightarrow> list_all reading h)"
proof -
  from resolve_parts[OF assms] obtain h0 h1 where
    s: "startup w env [] = (Inr cfg, h0)" and b: "set_base w env cfg h0 = (Inr base, h1)"
    and r: "set_branch w env cfg h1 = (Inr (sfx, branch), h)"
    by blast
  from set_base_result[OF b] obtain e1 where
    e1: "h1 = h0 @ e1" "list_all (\<lambda>e. local_event e \<or> stash_checkout base e) e1"
      "base_override cfg = None \<and> \<not> startswith (github_ref cfg) ''refs/pull/''
         \<longrightarrow> list_all local_event e1"
    by blast
  from set_branch_result[OF r] obtain e2 where
    e2: "h = h1 @ e2"
      "list_all (\<lambda>e. local_event e \<or> e = Git ''rev-parse'' [] [''--short'', ''HEAD'']) e2"
    by blast
  have l: "list_all local_event h0"
    by (rule startup_local[OF s])
  have h: "h = h0 @ e1 @ e2"
    using e1(1) e2(1) by simp
  have a: "list_all (resolving base) h"
    unfolding h list_all_append
    by (intro conjI list_all_weaken[OF l] list_all_weaken[OF e1(2)] list_all_weaken[OF e2(2)])
      (auto simp: resolving_def)
  have c: "list_all reading h"
    if "base_override cfg = None \<and> \<not> startswith (github_ref cfg) ''refs/pull/''"
  proof -
    from e1(3) that have e: "list_all local_event e1" by simp
    show ?thesis
      unfolding h list_all_append
      by (intro conjI list_all_weaken[OF l] list_all_weaken[OF e] list_all_weaken[OF e2(2)])
        (auto simp: reading_def)
  qed
  show ?thesis
    using a c by blast
qed

lemma dev_resolve:
  "resolve quiet_world dev_env [] =
     (Inr (dev_cfg, ''develop'', ''short-commit-hash'', ''create-pull-request/patch-a1b2c3d''),
      dev_resolved)"
  by (simp add: script_defs run_defs quiet_world_def dev_env_def master_env_def dev_cfg_def
      master_cfg_def alice_def alice_started_def dev_resolved_def)

section \<open>The claims\<close>

text \<open>
  C5. A run triggered by a pull request (the ref starts with \<open>refs/pull/\<close>), with no base
  override, whose payload names a head repository other than the target repository,
  prints the fork warning and exits with status 0. Beyond its start (reading the
  payload, opening the repository object, setting the git environment, output) it has
  done nothing: no git command has run and no request has gone to the hosting API.
\<close>

theorem fork_exits_clean:
  assumes "startup w env [] = (Inr cfg, h0)"
    and "base_override cfg = None"
    and "startswith (github_ref cfg) ''refs/pull/''"
    and "format_field w (event_data cfg) [''pull_request'', ''head'', ''repo'', ''full_name'']
           = Inr head_repo"
    and "head_repo \<noteq> github_repository cfg"
  shows "run w env = (Inl (Exit 0), h0 @ [Print fork_warning])
         \<and> status_of w env = 0
         \<and> list_all local_event (trace_of w env)
         \<and> \<not> list_ex is_git (trace_of w env) \<and> \<not> list_ex is_api (trace_of w env)"
proof -
  have r: "run w env = (Inl (Exit 0), h0 @ [Print fork_warning])"
    using assms
    by (simp add: run_def main_def prepare_def resolve_def set_base_def run_defs)
  have l: "list_all local_event (trace_of w env)"
    using startup_local[OF assms(1)] by (simp add: trace_of_def r local_event_def)
  show ?thesis
    using r l local_no_git[OF l] by (simp add: status_of_def exit_code_def)
qed

theorem fork_exits_clean_witness:
  "startup fork_world fork_env [] = (Inr fork_cfg, alice_started)
   \<and> base_override fork_cfg = None
   \<and> startswith (github_ref fork_cfg) ''refs/pull/''
   \<and> format_field fork_world (event_data fork_cfg)
        [''pull_request'', ''head'', ''repo'', ''full_name''] = Inr ''fork/repo''
   \<and> ''fork/repo'' \<noteq> github_repository fork_cfg
   \<and> run fork_world fork_env = (Inl (Exit 0), alice_started @ [Print fork_warning])
   \<and> status_of fork_world fork_env = 0
   \<and> \<not> list_ex is_git (trace_of fork_world fork_env)
   \<and> \<not> list_ex is_api (trace_of fork_world fork_env)"
proof -
  have a: "startup fork_world fork_env [] = (Inr fork_cfg, alice_started)"
    by (simp add: startup_def get_github_event_def get_author_default_def run_defs getenv_def
        done_or_def fork_world_def quiet_world_def fork_env_def fork_cfg_def alice_def
        alice_started_def)
  have b: "base_override fork_cfg = None"
    by (simp add: fork_cfg_def)
  have c: "startswith (github_ref fork_cfg) ''refs/pull/''"
    by (simp add: fork_cfg_def)
  have d: "format_field fork_world (event_data fork_cfg)
             [''pull_request'', ''head'', ''repo'', ''full_name''] = Inr ''fork/repo''"
    by (simp add: format_field_def to_text_def fork_cfg_def fork_payload_def)
  have e: "''fork/repo'' \<noteq> github_repository fork_cfg"
    by (simp add: fork_cfg_def)
  show ?thesis
    using fork_exits_clean[OF a b c d e] a b c d e by simp
qed

text \<open>
  C8. In every run, whatever the environment and whatever the outside answers, at most
  one \<open>git push\<close> is executed, at most one request to create a pull request is made,
  and at most one request to look up the open pull requests (the fallback).
\<close>

theorem one_push_one_pull_call:
  "length (filter is_push (trace_of w env)) \<le> 1
   \<and> length (filter is_create_pull (trace_of w env)) \<le> 1
   \<and> length (filter is_get_pulls (trace_of w env)) \<le> 1"
proof -
  have a: "adds is_push 1 (main w env)"
  proof (rule main_one)
    show "\<not> is_push e" if "is_prepare e" for e
      using that by (auto simp: is_prepare_def is_push_def split: event.splits)
    show "adds is_push 1 (process_event w env idn token repo branch base)"
      for idn token repo branch base
      by (rule process_event_push)
  qed (simp_all add: is_push_def)
  have b: "adds is_create_pull 1 (main w env)"
  proof (rule main_one)
    show "\<not> is_create_pull e" if "is_prepare e" for e
      using that by (auto simp: is_prepare_def is_create_pull_def split: event.splits)
    show "adds is_create_pull 1 (process_event w env idn token repo branch base)"
      for idn token repo branch base
      by (rule process_event_create)
  qed (simp_all add: is_create_pull_def)
  have c: "adds is_get_pulls 1 (main w env)"
  proof (rule main_one)
    show "\<not> is_get_pulls e" if "is_prepare e" for e
      using that by (auto simp: is_prepare_def is_get_pulls_def split: event.splits)
    show "adds is_get_pulls 1 (process_event w env idn token repo branch base)"
      for idn token repo branch base
      by (rule process_event_lookup)
  qed (simp_all add: is_get_pulls_def)
  show ?thesis
    using adds_count[OF a] adds_count[OF b] adds_count[OF c]
    by (simp add: trace_of_def run_def)
qed

text \<open>
  C3. When the head branch has been checked out and the working tree then shows no
  modified tracked file and no untracked file, the publish step is not entered: the run
  prints that nothing was detected and ends normally (status 0), and its whole trace
  holds no staging, commit or push, no request to the hosting API and no output variable.
\<close>

theorem clean_tree_no_publish:
  assumes "prepare w env [] = (Inr (cfg, base, branch, remote_exists), h)"
    and "is_dirty w (h @ [Print (checking_message remote_exists branch base)]) = Inr False"
    and "untracked_files w (h @ [Print (checking_message remote_exists branch base), IsDirty])
           = Inr []"
  shows "run w env =
           (Inr (), h @ [Print (checking_message remote_exists branch base), IsDirty,
                         UntrackedFiles,
                         Print ''No modified or untracked files detected. Skipping.''])
         \<and> status_of w env = 0
         \<and> \<not> list_ex is_publish (trace_of w env)
         \<and> \<not> list_ex is_push (trace_of w env) \<and> \<not> list_ex is_api (trace_of w env)"
proof -
  have r: "run w env =
           (Inr (), h @ [Print (checking_message remote_exists branch base), IsDirty,
                         UntrackedFiles,
                         Print ''No modified or untracked files detected. Skipping.''])"
    using assms
    by (cases remote_exists)
      (simp_all add: run_def main_def publish_changes_def checking_message_def run_defs)
  have p: "\<not> list_ex is_publish (trace_of w env)"
    using prepare_no_publish[OF assms(1)]
    by (simp add: trace_of_def r is_publish_def)
  have "\<not> list_ex is_push (trace_of w env) \<and> \<not> list_ex is_api (trace_of w env)"
    using p by (auto simp: list_ex_iff is_publish_def is_push_def is_api_def split: event.splits)
  then show ?thesis
    using r p by (simp add: status_of_def exit_code_def)
qed

theorem clean_tree_no_publish_witness:
  "prepare quiet_world master_env [] =
     (Inr (master_cfg, ''master'', ''create-pull-request/patch-a1b2c3d'', False), master_prepared)
   \<and> is_dirty quiet_world
        (master_prepared
         @ [Print (checking_message False ''create-pull-request/patch-a1b2c3d'' ''master'')])
       = Inr False
   \<and> untracked_files quiet_world
        (master_prepared
         @ [Print (checking_message False ''create-pull-request/patch-a1b2c3d'' ''master''),
            IsDirty]) = Inr []
   \<and> status_of quiet_world master_env = 0
   \<and> \<not> list_ex is_push (trace_of quiet_world master_env)
   \<and> \<not> list_ex is_api (trace_of quiet_world master_env)"
proof -
  have b: "is_dirty quiet_world
        (master_prepared
         @ [Print (checking_message False ''create-pull-request/patch-a1b2c3d'' ''master'')])
       = Inr False"
    by (simp add: quiet_world_def)
  have c: "untracked_files quiet_world
        (master_prepared
         @ [Print (checking_message False ''create-pull-request/patch-a1b2c3d'' ''master''),
            IsDirty]) = Inr []"
    by (simp add: quiet_world_def)
  show ?thesis
    using clean_tree_no_publish[OF master_prepare b c] master_prepare b c by simp
qed

text \<open>
  C2. With the short-commit-hash strategy (\<open>BRANCH_SUFFIX\<close> unset or set to that name),
  once the base is resolved and is not a branch of this action, the head branch is the
  configured prefix, a hyphen, and what \<open>git rev-parse --short HEAD\<close> answers. The name
  depends on the prefix and that short hash only: any other run with the same prefix
  whose \<open>git rev-parse --short HEAD\<close> gives the same answer resolves the same name. The
  concrete runs below are the prefix \<open>create-pull-request/patch\<close> with the hash
  \<open>a1b2c3d\<close>, once scheduled by alice and once pushed with carol as author.
\<close>

theorem commit_hash_branch_name:
  assumes "startup w env [] = (Inr cfg, h0)"
    and "set_base w env cfg h0 = (Inr base, h1)"
    and "\<not> startswith base (branch_prefix cfg)"
    and "getenv env ''BRANCH_SUFFIX'' ''short-commit-hash'' = ''short-commit-hash''"
    and "git_exec w h1 ''rev-parse'' [] [''--short'', ''HEAD''] = Inr sha"
  shows "resolve w env [] =
           (Inr (cfg, base, ''short-commit-hash'', branch_prefix cfg @ ''-'' @ sha),
            h1 @ [Git ''rev-parse'' [] [''--short'', ''HEAD''],
                  Print (''Pull request branch to create/update set to ''
                         @ quoted (branch_prefix cfg @ ''-'' @ sha))])
         \<and> branch_prefix cfg = getenv env ''PULL_REQUEST_BRANCH'' ''create-pull-request/patch''
         \<and> (\<forall>w' env' cfg' h0' base' h1'.
               startup w' env' [] = (Inr cfg', h0')
               \<longrightarrow> set_base w' env' cfg' h0' = (Inr base', h1')
               \<longrightarrow> \<not> startswith base' (branch_prefix cfg')
               \<longrightarrow> getenv env' ''BRANCH_SUFFIX'' ''short-commit-hash'' = ''short-commit-hash''
               \<longrightarrow> git_exec w' h1' ''rev-parse'' [] [''--short'', ''HEAD''] = Inr sha
               \<longrightarrow> branch_prefix cfg' = branch_prefix cfg
               \<longrightarrow> fst (resolve w' env' []) =
                     Inr (cfg', base', ''short-commit-hash'', branch_prefix cfg @ ''-'' @ sha))"
proof -
  have "fst (resolve w' env' []) =
          Inr (cfg', base', ''short-commit-hash'', branch_prefix cfg @ ''-'' @ sha)"
    if "startup w' env' [] = (Inr cfg', h0')" "set_base w' env' cfg' h0' = (Inr base', h1')"
      "\<not> startswith base' (branch_prefix cfg')"
      "getenv env' ''BRANCH_SUFFIX'' ''short-commit-hash'' = ''short-commit-hash''"
      "git_exec w' h1' ''rev-parse'' [] [''--short'', ''HEAD''] = Inr sha"
      "branch_prefix cfg' = branch_prefix cfg"
    for w' env' cfg' h0' base' h1'
    using resolve_commit_hash[OF that(1-5)] that(6) by simp
  then show ?thesis
    using resolve_commit_hash[OF assms] startup_cfg[OF assms(1)] by blast
qed

theorem commit_hash_branch_name_witness:
  "startup quiet_world master_env [] = (Inr master_cfg, alice_started)
   \<and> set_base quiet_world master_env master_cfg alice_started = (Inr ''master'', master_based)
   \<and> \<not> startswith ''master'' (branch_prefix master_cfg)
   \<and> getenv master_env ''BRANCH_SUFFIX'' ''short-commit-hash'' = ''short-commit-hash''
   \<and> git_exec quiet_world master_based ''rev-parse'' [] [''--short'', ''HEAD''] = Inr ''a1b2c3d''
   \<and> branch_prefix master_cfg = ''create-pull-request/patch''
   \<and> fst (resolve quiet_world master_env []) =
       Inr (master_cfg, ''master'', ''short-commit-hash'', ''create-pull-request/patch-a1b2c3d'')
   \<and> startup carol_world carol_env [] = (Inr carol_cfg, carol_started)
   \<and> set_base carol_world carol_env carol_cfg carol_started
       = (Inr ''master'',
          carol_started
          @ [Print (''Currently checked out base assumed to be branch '' @ quoted ''master'')])
   \<and> \<not> startswith ''master'' (branch_prefix carol_cfg)
   \<and> getenv carol_env ''BRANCH_SUFFIX'' ''short-commit-hash'' = ''short-commit-hash''
   \<and> git_exec carol_world
        (carol_started
         @ [Print (''Currently checked out base assumed to be branch '' @ quoted ''master'')])
        ''rev-parse'' [] [''--short'', ''HEAD''] = Inr ''a1b2c3d''
   \<and> branch_prefix carol_cfg = branch_prefix master_cfg
   \<and> fst (resolve carol_world carol_env []) =
       Inr (carol_cfg, ''master'', ''short-commit-hash'', ''create-pull-request/patch-a1b2c3d'')"
proof -
  have c: "\<not> startswith ''master'' (branch_prefix master_cfg)"
    by (simp add: master_cfg_def)
  have d: "getenv master_env ''BRANCH_SUFFIX'' ''short-commit-hash'' = ''short-commit-hash''"
    by (simp add: getenv_def master_env_def)
  have e: "git_exec quiet_world master_based ''rev-parse'' [] [''--short'', ''HEAD'']
             = Inr ''a1b2c3d''"
    by (simp add: quiet_world_def)
  have p: "branch_prefix master_cfg = ''create-pull-request/patch''"
    by (simp add: master_cfg_def)
  have c': "\<not> startswith ''master'' (branch_prefix carol_cfg)"
    by (simp add: carol_cfg_def)
  have d': "getenv carol_env ''BRANCH_SUFFIX'' ''short-commit-hash'' = ''short-commit-hash''"
    by (simp add: getenv_def carol_env_def)
  have e': "git_exec carol_world
        (carol_started
         @ [Print (''Currently checked out base assumed to be branch '' @ quoted ''master'')])
        ''rev-parse'' [] [''--short'', ''HEAD''] = Inr ''a1b2c3d''"
    by (simp add: carol_world_def quiet_world_def)
  have p': "branch_prefix carol_cfg = branch_prefix master_cfg"
    by (simp add: carol_cfg_def master_cfg_def)
  note t = commit_hash_branch_name[OF master_startup master_set_base c d e]
  from t have one: "fst (resolve quiet_world master_env []) =
       Inr (master_cfg, ''master'', ''short-commit-hash'', ''create-pull-request/patch-a1b2c3d'')"
    by (simp add: p)
  from t[THEN conjunct2, THEN conjunct2, rule_format,
      OF carol_startup carol_set_base c' d' e' p']
  have two: "fst (resolve carol_world carol_env []) =
       Inr (carol_cfg, ''master'', ''short-commit-hash'', ''create-pull-request/patch-a1b2c3d'')"
    by (simp add: p)
  show ?thesis
    using master_startup master_set_base c d e p carol_startup carol_set_base c' d' e' p' one two
    by simp
qed

text \<open>
  C6, as amended. When the resolved base starts with the configured prefix, the run
  prints that the branch was created by this action and exits with status 0 right after
  base resolution: no head branch name is computed, nothing is staged, committed or
  pushed and no request goes to the hosting API. The git commands it has run are those
  of checking out the base (stash, checkout, stash pop, and after a failed pop
  \<open>checkout --theirs .\<close> and \<open>reset\<close>), which base resolution runs for a base override
  and for a pull-request ref; with neither, no git command has run.
\<close>

theorem own_branch_skipped:
  assumes "startup w env [] = (Inr cfg, h0)"
    and "set_base w env cfg h0 = (Inr base, h1)"
    and "startswith base (branch_prefix cfg)"
  shows "run w env =
           (Inl (Exit 0),
            h1 @ [Print (''Branch '' @ quoted base @ '' was created by this action. Skipping.'')])
         \<and> status_of w env = 0
         \<and> list_all (\<lambda>e. local_event e \<or> stash_checkout base e) (trace_of w env)
         \<and> \<not> list_ex is_publish (trace_of w env)
         \<and> (base_override cfg = None \<and> \<not> startswith (github_ref cfg) ''refs/pull/''
              \<longrightarrow> list_all local_event (trace_of w env))"
proof -
  have r: "run w env =
           (Inl (Exit 0),
            h1 @ [Print (''Branch '' @ quoted base @ '' was created by this action. Skipping.'')])"
    using assms
    by (simp add: run_def main_def prepare_def resolve_def skip_own_branch_def run_defs)
  from set_base_result[OF assms(2)] obtain es where
    es: "h1 = h0 @ es" "list_all (\<lambda>e. local_event e \<or> stash_checkout base e) es"
      "base_override cfg = None \<and> \<not> startswith (github_ref cfg) ''refs/pull/''
         \<longrightarrow> list_all local_event es"
    by blast
  have l: "list_all local_event h0"
    by (rule startup_local[OF assms(1)])
  have t: "trace_of w env = h0 @ es @ [Print (''Branch '' @ quoted base
                                              @ '' was created by this action. Skipping.'')]"
    by (simp add: trace_of_def r es(1))
  have p: "local_event (Print s)" for s
    by (simp add: local_event_def)
  have a: "list_all (\<lambda>e. local_event e \<or> stash_checkout base e) (trace_of w env)"
    unfolding t list_all_append using list_all_local_or[OF l] es(2) p by simp
  have b: "base_override cfg = None \<and> \<not> startswith (github_ref cfg) ''refs/pull/''
             \<longrightarrow> list_all local_event (trace_of w env)"
    unfolding t list_all_append using l es(3) p by simp
  have c: "\<not> list_ex is_publish (trace_of w env)"
    using a local_not_publish stash_checkout_not_publish
    unfolding list_all_iff list_ex_iff by blast
  show ?thesis
    using r a b c by (simp add: status_of_def exit_code_def)
qed

theorem own_branch_skipped_witness:
  "startup quiet_world own_env [] = (Inr own_cfg, alice_started)
   \<and> set_base quiet_world own_env own_cfg alice_started
       = (Inr ''create-pull-request/patch-old'', own_based)
   \<and> startswith ''create-pull-request/patch-old'' (branch_prefix own_cfg)
   \<and> status_of quiet_world own_env = 0
   \<and> \<not> list_ex is_publish (trace_of quiet_world own_env)"
  using own_branch_skipped[OF own_startup own_set_base own_prefix]
    own_startup own_set_base own_prefix
  by simp

theorem own_branch_checked_out_first:
  "fst (set_base quiet_world own_env own_cfg alice_started) = Inr ''create-pull-request/patch-old''
   \<and> startswith ''create-pull-request/patch-old'' (branch_prefix own_cfg)
   \<and> status_of quiet_world own_env = 0
   \<and> trace_of quiet_world own_env =
       own_based
       @ [Print (''Branch '' @ quoted ''create-pull-request/patch-old''
                 @ '' was created by this action. Skipping.'')]
   \<and> list_ex (checks_out ''create-pull-request/patch-old'') (trace_of quiet_world own_env)"
proof -
  have r: "run quiet_world own_env =
           (Inl (Exit 0),
            own_based
            @ [Print (''Branch '' @ quoted ''create-pull-request/patch-old''
                      @ '' was created by this action. Skipping.'')])"
    using own_startup own_set_base own_prefix
    by (simp add: run_def main_def prepare_def resolve_def skip_own_branch_def run_defs)
  show ?thesis
    using own_set_base own_prefix
    by (simp add: r status_of_def trace_of_def exit_code_def own_based_def checks_out_def)
qed

text \<open>
  C9. With \<open>PULL_REQUEST_BASE\<close> set, base resolution is the override line and the
  checkout of that branch, and returns it: it does not read the ref or the payload, so
  the head repository is never compared (changing either leaves it unchanged), and it
  never exits. The run goes on after its start with the override line, the checkout
  line and \<open>git stash --include-untracked\<close>, and when the stash succeeds with
  \<open>git checkout\<close> of the override branch.
\<close>

theorem base_override_first:
  assumes "startup w env [] = (Inr cfg, h0)"
    and "base_override cfg = Some b"
  shows "set_base w env cfg h0 =
           seq (checkout_branch w True b) (ret b)
             (h0 @ [Print (''Overriding the base with branch '' @ quoted b)])
         \<and> (\<forall>r d. set_base w env (cfg\<lparr>github_ref := r, event_data := d\<rparr>) h0
                    = set_base w env cfg h0)
         \<and> (\<forall>n. fst (set_base w env cfg h0) \<noteq> Inl (Exit n))
         \<and> (\<exists>rest. trace_of w env =
                h0 @ [Print (''Overriding the base with branch '' @ quoted b),
                      Print (''Checking out branch '' @ quoted b),
                      Git ''stash'' [] [''--include-untracked'']] @ rest
              \<and> (\<forall>out. git_exec w
                           (h0 @ [Print (''Overriding the base with branch '' @ quoted b),
                                  Print (''Checking out branch '' @ quoted b)])
                           ''stash'' [] [''--include-untracked''] = Inr out
                    \<longrightarrow> (\<exists>rest'. rest = Git ''checkout'' [] [b] # rest')))"
proof -
  let ?h = "h0 @ [Print (''Overriding the base with branch '' @ quoted b)]"
  have a: "set_base w env cfg h0 = seq (checkout_branch w True b) (ret b) ?h"
    using assms(2) by (simp add: set_base_def seq_def bnd_def print_def emit_def)
  have b: "set_base w env (cfg\<lparr>github_ref := r, event_data := d\<rparr>) h0 = set_base w env cfg h0"
    for r d
    using assms(2) by (simp add: set_base_def)
  have c: "fst (set_base w env cfg h0) \<noteq> Inl (Exit n)" for n
    using checkout_branch_no_exit[of w True b ?h n]
    by (cases "checkout_branch w True b ?h")
      (auto simp: a seq_def bnd_def ret_def split: sum.splits)
  from checkout_branch_starts[of w b ?h] obtain rest where
    r: "snd (checkout_branch w True b ?h) =
          ?h @ [Print (''Checking out branch '' @ quoted b),
                Git ''stash'' [] [''--include-untracked'']] @ rest"
    and n: "\<forall>out. git_exec w (?h @ [Print (''Checking out branch '' @ quoted b)])
                     ''stash'' [] [''--include-untracked''] = Inr out
              \<longrightarrow> (\<exists>rest'. rest = Git ''checkout'' [] [b] # rest')"
    by (elim exE conjE) (rule that)
  have "snd (set_base w env cfg h0) = snd (checkout_branch w True b ?h)"
    by (cases "checkout_branch w True b ?h")
      (auto simp: a seq_def bnd_def ret_def split: sum.splits)
  with trace_after_set_base[OF assms(1)] r obtain es where
    t: "trace_of w env =
          h0 @ [Print (''Overriding the base with branch '' @ quoted b),
                Print (''Checking out branch '' @ quoted b),
                Git ''stash'' [] [''--include-untracked'']] @ (rest @ es)"
    by auto
  have d: "\<exists>rest. trace_of w env =
                h0 @ [Print (''Overriding the base with branch '' @ quoted b),
                      Print (''Checking out branch '' @ quoted b),
                      Git ''stash'' [] [''--include-untracked'']] @ rest
              \<and> (\<forall>out. git_exec w
                           (h0 @ [Print (''Overriding the base with branch '' @ quoted b),
                                  Print (''Checking out branch '' @ quoted b)])
                           ''stash'' [] [''--include-untracked''] = Inr out
                    \<longrightarrow> (\<exists>rest'. rest = Git ''checkout'' [] [b] # rest'))"
    using t n by (intro exI[of _ "rest @ es"]) auto
  show ?thesis
    apply (intro conjI allI)
       apply (rule a)
      apply (rule b)
     apply (rule c)
    apply (rule d)
    done
qed

theorem base_override_first_witness:
  "startup fork_world over_env [] = (Inr over_cfg, alice_started)
   \<and> base_override over_cfg = Some ''develop''
   \<and> startswith (github_ref over_cfg) ''refs/pull/''
   \<and> format_field fork_world (event_data over_cfg)
        [''pull_request'', ''head'', ''repo'', ''full_name''] = Inr ''fork/repo''
   \<and> ''fork/repo'' \<noteq> github_repository over_cfg
   \<and> fst (set_base fork_world over_env over_cfg alice_started) \<noteq> Inl (Exit 0)
   \<and> fst (set_base fork_world over_env over_cfg alice_started) = Inr ''develop''"
proof -
  have a: "startup fork_world over_env [] = (Inr over_cfg, alice_started)"
    by (simp add: script_defs run_defs fork_world_def quiet_world_def over_env_def fork_env_def
        over_cfg_def fork_cfg_def alice_def alice_started_def)
  have b: "base_override over_cfg = Some ''develop''"
    by (simp add: over_cfg_def)
  have c: "startswith (github_ref over_cfg) ''refs/pull/''"
    by (simp add: over_cfg_def fork_cfg_def)
  have d: "format_field fork_world (event_data over_cfg)
             [''pull_request'', ''head'', ''repo'', ''full_name''] = Inr ''fork/repo''"
    by (simp add: format_field_def to_text_def over_cfg_def fork_cfg_def fork_payload_def)
  have e: "''fork/repo'' \<noteq> github_repository over_cfg"
    by (simp add: over_cfg_def fork_cfg_def)
  have f: "fst (set_base fork_world over_env over_cfg alice_started) = Inr ''develop''"
    by (simp add: script_defs run_defs over_cfg_def fork_world_def quiet_world_def)
  show ?thesis
    using base_override_first[OF a b] a b c d e f by simp
qed

text \<open>
  C10. After the start of the script, with \<open>COMMITTER_NAME\<close> unset the committer name is
  the author name, and with \<open>COMMITTER_EMAIL\<close> unset the committer email is the author
  email, where the author is the one in effect: \<open>COMMIT_AUTHOR_NAME\<close> and
  \<open>COMMIT_AUTHOR_EMAIL\<close> when set, whatever the trigger event gave. This identity is
  what the git environment is set to, and every \<open>git commit\<close> of the run carries it.
\<close>

theorem committer_defaults_to_author:
  assumes "startup w env [] = (Inr cfg, h0)"
  shows "(env ''COMMITTER_NAME'' = None
            \<longrightarrow> committer_name (ident cfg) = author_name (ident cfg))
         \<and> (env ''COMMITTER_EMAIL'' = None
            \<longrightarrow> committer_email (ident cfg) = author_email (ident cfg))
         \<and> (\<forall>a. env ''COMMIT_AUTHOR_NAME'' = Some a \<longrightarrow> author_name (ident cfg) = a)
         \<and> (\<forall>a. env ''COMMIT_AUTHOR_EMAIL'' = Some a \<longrightarrow> author_email (ident cfg) = a)
         \<and> (\<exists>hh. h0 = hh @ [git_environment (ident cfg)])
         \<and> list_all (commit_as (ident cfg)) (trace_of w env)"
  using startup_cfg[OF assms] startup_environment[OF assms] run_commit_as[OF assms]
  by (simp add: getenv_def)

theorem committer_defaults_to_author_witness:
  "startup carol_world carol_env [] = (Inr carol_cfg, carol_started)
   \<and> carol_env ''COMMITTER_NAME'' = None
   \<and> carol_env ''COMMITTER_EMAIL'' = None
   \<and> carol_env ''COMMIT_AUTHOR_NAME'' = Some ''carol''
   \<and> format_field carol_world (event_data carol_cfg) [''head_commit'', ''author'', ''name'']
       = Inr ''bob''
   \<and> committer_name (ident carol_cfg) = ''carol''
   \<and> committer_email (ident carol_cfg) = ''carol@example.com''
   \<and> list_all (commit_as (ident carol_cfg)) (trace_of carol_world carol_env)
   \<and> Git ''commit''
        [(''message'', ''Auto-committed changes by create-pull-request action''),
         (''author_name'', ''carol''), (''author_email'', ''carol@example.com''),
         (''committer_name'', ''carol''), (''committer_email'', ''carol@example.com'')] []
       \<in> set (trace_of carol_world carol_env)"
proof -
  have a: "carol_env ''COMMITTER_NAME'' = None" "carol_env ''COMMITTER_EMAIL'' = None"
    "carol_env ''COMMIT_AUTHOR_NAME'' = Some ''carol''"
    "carol_env ''COMMIT_AUTHOR_EMAIL'' = Some ''carol@example.com''"
    by (simp_all add: carol_env_def)
  have b: "format_field carol_world (event_data carol_cfg)
             [''head_commit'', ''author'', ''name''] = Inr ''bob''"
    by (simp add: format_field_def to_text_def carol_cfg_def push_payload_def)
  show ?thesis
    using committer_defaults_to_author[OF carol_startup] carol_startup a b carol_commits
    by simp
qed

text \<open>
  C4, as amended. In the publish step, once the push is done and the repository object
  is fetched, the request to create the pull request is made. If it raises a
  GithubException with status 422, the open pull requests with the same base and the
  head \<open>owner:branch\<close> are looked up, and if that lookup returns at least one, the first
  is reported (\<open>Updated pull request #n\<close>) and the step goes on with it: the output
  variables carry its number. If the creation raises a GithubException with another
  status, that error is printed and the program exits with status 1; any other
  exception ends it with status 1 as well. In both cases nothing follows the failed
  request but that output.
\<close>

theorem duplicate_pull_reused:
  assumes "push_changes w idn token repo branch (commit_message_of env)
             (h @ [Print (''Pushing changes to '' @ quoted (''origin/'' @ branch))])
           = (Inr out, h1)"
    and "api_action w (h1 @ [Print out]) (GetRepo token repo) = None"
    and "hc = h1 @ [Print out, Api (GetRepo token repo)]"
    and "api_pull w hc (CreatePull (pull_title env) (pull_body env) base branch) = Inl x"
  shows "(\<forall>data pr prs.
            x = GithubException 422 data
            \<longrightarrow> api_pulls w (hc @ [create_call env base branch])
                  (GetPulls ''open'' base (owner_of repo @ '':'' @ branch)) = Inr (pr # prs)
            \<longrightarrow> process_event w env idn token repo branch base h =
                  metadata_of w env pr
                    (hc @ [create_call env base branch, lookup_call repo base branch,
                           Print (updated_message pr branch base)])
                \<and> (\<exists>rest. snd (process_event w env idn token repo branch base h) =
                      hc @ [create_call env base branch, lookup_call repo base branch,
                            Print (updated_message pr branch base),
                            System (''echo ::set-env name=PULL_REQUEST_NUMBER::''
                                    @ str_int (number pr)),
                            System (''echo ::set-output name=pr_number::''
                                    @ str_int (number pr))] @ rest))
         \<and> (\<forall>status data.
            x = GithubException status data \<longrightarrow> status \<noteq> 422
            \<longrightarrow> process_event w env idn token repo branch base h =
                  (Inl (Exit 1), hc @ [create_call env base branch, Print (exc_str w x)])
                \<and> exit_code (fst (process_event w env idn token repo branch base h)) = 1)
         \<and> ((\<forall>status data. x \<noteq> GithubException status data)
            \<longrightarrow> process_event w env idn token repo branch base h =
                  (Inl (Raise x), hc @ [create_call env base branch])
                \<and> exit_code (fst (process_event w env idn token repo branch base h)) = 1)"
proof -
  note p = process_event_at_create[OF assms(1,2), folded assms(3)]
  have one: "process_event w env idn token repo branch base h =
                  metadata_of w env pr
                    (hc @ [create_call env base branch, lookup_call repo base branch,
                           Print (updated_message pr branch base)])
                \<and> (\<exists>rest. snd (process_event w env idn token repo branch base h) =
                      hc @ [create_call env base branch, lookup_call repo base branch,
                            Print (updated_message pr branch base),
                            System (''echo ::set-env name=PULL_REQUEST_NUMBER::''
                                    @ str_int (number pr)),
                            System (''echo ::set-output name=pr_number::''
                                    @ str_int (number pr))] @ rest)"
    if x: "x = GithubException 422 data"
      and l: "api_pulls w (hc @ [create_call env base branch])
                (GetPulls ''open'' base (owner_of repo @ '':'' @ branch)) = Inr (pr # prs)"
    for data pr prs
  proof -
    have "create_or_update_pull w repo (pull_title env) (pull_body env) base branch hc =
            (Inr pr, hc @ [create_call env base branch, lookup_call repo base branch,
                           Print (updated_message pr branch base)])"
      using create_pull_reuses[OF assms(4)[unfolded x] l[unfolded create_call_def]]
      by (simp add: create_call_def lookup_call_def)
    then have e: "process_event w env idn token repo branch base h =
                  metadata_of w env pr
                    (hc @ [create_call env base branch, lookup_call repo base branch,
                           Print (updated_message pr branch base)])"
      by (simp add: p bnd_def)
    from metadata_of_starts[of w env pr
        "hc @ [create_call env base branch, lookup_call repo base branch,
               Print (updated_message pr branch base)]"]
    show ?thesis
      unfolding e by simp
  qed
  have two: "process_event w env idn token repo branch base h =
                  (Inl (Exit 1), hc @ [create_call env base branch, Print (exc_str w x)])
                \<and> exit_code (fst (process_event w env idn token repo branch base h)) = 1"
    if x: "x = GithubException status data" and s: "status \<noteq> 422" for status data
    using create_pull_other_status[OF assms(4)[unfolded x] s, of repo]
    by (simp add: p bnd_def create_call_def exit_code_def x)
  have three: "process_event w env idn token repo branch base h =
                  (Inl (Raise x), hc @ [create_call env base branch])
                \<and> exit_code (fst (process_event w env idn token repo branch base h)) = 1"
    if "\<forall>status data. x \<noteq> GithubException status data"
    using create_pull_other_exception[OF assms(4) that, of repo]
    by (simp add: p bnd_def create_call_def exit_code_def)
  show ?thesis
    apply (intro conjI allI impI)
         apply (rule one[THEN conjunct1], assumption, assumption)
        apply (rule one[THEN conjunct2], assumption, assumption)
       apply (rule two[THEN conjunct1], assumption, assumption)
      apply (rule two[THEN conjunct2], assumption, assumption)
     apply (rule three[THEN conjunct1], assumption)
    apply (rule three[THEN conjunct2], assumption)
    done
qed

theorem duplicate_pull_reused_witness:
  "push_changes found_world alice ''t'' ''octo/repo'' ''create-pull-request/patch-a1b2c3d''
     (commit_message_of master_env)
     (master_changed
      @ [Print (''Pushing changes to '' @ quoted (''origin/'' @ ''create-pull-request/patch-a1b2c3d''))])
   = (Inr [], master_pushed)
   \<and> api_action found_world (master_pushed @ [Print []]) (GetRepo ''t'' ''octo/repo'') = None
   \<and> master_connected = master_pushed @ [Print [], Api (GetRepo ''t'' ''octo/repo'')]
   \<and> api_pull found_world master_connected
        (CreatePull (pull_title master_env) (pull_body master_env) ''master''
           ''create-pull-request/patch-a1b2c3d'')
       = Inl (GithubException 422 JNull)
   \<and> api_pulls found_world
        (master_connected
         @ [create_call master_env ''master'' ''create-pull-request/patch-a1b2c3d''])
        (GetPulls ''open'' ''master''
           (owner_of ''octo/repo'' @ '':'' @ ''create-pull-request/patch-a1b2c3d''))
       = Inr [pull_12]
   \<and> process_event found_world master_env alice ''t'' ''octo/repo''
        ''create-pull-request/patch-a1b2c3d'' ''master'' master_changed
       = metadata_of found_world master_env pull_12
           (master_connected
            @ [create_call master_env ''master'' ''create-pull-request/patch-a1b2c3d'',
               lookup_call ''octo/repo'' ''master'' ''create-pull-request/patch-a1b2c3d'',
               Print (updated_message pull_12 ''create-pull-request/patch-a1b2c3d'' ''master'')])
   \<and> updated_message pull_12 ''create-pull-request/patch-a1b2c3d'' ''master''
       = ''Updated pull request #12 (create-pull-request/patch-a1b2c3d => master)''"
proof -
  have a: "push_changes found_world alice ''t'' ''octo/repo''
             ''create-pull-request/patch-a1b2c3d'' (commit_message_of master_env)
             (master_changed
              @ [Print (''Pushing changes to ''
                        @ quoted (''origin/'' @ ''create-pull-request/patch-a1b2c3d''))])
           = (Inr [], master_pushed)"
    by (simp add: push_changes_def git_do_def git_def get_repo_url_def run_defs found_world_def
        stale_world_def quiet_world_def alice_def commit_message_of_def getenv_def
        master_env_def master_pushed_def quoted_def)
  have b: "api_action found_world (master_pushed @ [Print []]) (GetRepo ''t'' ''octo/repo'')
             = None"
    by (simp add: found_world_def stale_world_def quiet_world_def)
  have c: "master_connected = master_pushed @ [Print [], Api (GetRepo ''t'' ''octo/repo'')]"
    by (simp add: master_connected_def)
  have d: "api_pull found_world master_connected
             (CreatePull (pull_title master_env) (pull_body master_env) ''master''
                ''create-pull-request/patch-a1b2c3d'')
           = Inl (GithubException 422 JNull)"
    by (simp add: found_world_def stale_world_def)
  have e: "api_pulls found_world
             (master_connected
              @ [create_call master_env ''master'' ''create-pull-request/patch-a1b2c3d''])
             (GetPulls ''open'' ''master''
                (owner_of ''octo/repo'' @ '':'' @ ''create-pull-request/patch-a1b2c3d''))
           = Inr [pull_12]"
    by (simp add: found_world_def)
  have f: "updated_message pull_12 ''create-pull-request/patch-a1b2c3d'' ''master''
             = ''Updated pull request #12 (create-pull-request/patch-a1b2c3d => master)''"
    by (simp add: updated_message_def pull_12_def str_int_def)
  from duplicate_pull_reused[OF a b c d]
  have "process_event found_world master_env alice ''t'' ''octo/repo''
          ''create-pull-request/patch-a1b2c3d'' ''master'' master_changed
        = metadata_of found_world master_env pull_12
            (master_connected
             @ [create_call master_env ''master'' ''create-pull-request/patch-a1b2c3d'',
                lookup_call ''octo/repo'' ''master'' ''create-pull-request/patch-a1b2c3d'',
                Print (updated_message pull_12 ''create-pull-request/patch-a1b2c3d''
                         ''master'')])"
    using e by blast
  then show ?thesis
    using a b c d e f by simp
qed

theorem duplicate_pull_not_found:
  "api_pull stale_world master_connected
     (CreatePull (pull_title master_env) (pull_body master_env) ''master''
        ''create-pull-request/patch-a1b2c3d'')
   = Inl (GithubException 422 JNull)
   \<and> run stale_world master_env =
       (Inl (Raise IndexError),
        master_connected
        @ [create_call master_env ''master'' ''create-pull-request/patch-a1b2c3d'',
           lookup_call ''octo/repo'' ''master'' ''create-pull-request/patch-a1b2c3d''])
   \<and> status_of stale_world master_env = 1"
proof -
  have r: "run stale_world master_env =
       (Inl (Raise IndexError),
        master_connected
        @ [create_call master_env ''master'' ''create-pull-request/patch-a1b2c3d'',
           lookup_call ''octo/repo'' ''master'' ''create-pull-request/patch-a1b2c3d''])"
    by (simp add: run_def publish_defs script_defs run_defs stale_world_def quiet_world_def
        master_env_def alice_def alice_started_def master_based_def master_resolved_def
        master_prepared_def master_changed_def master_pushed_def master_connected_def
        checking_message_def create_call_def lookup_call_def pull_title_def pull_body_def
        owner_of_def)
  have d: "api_pull stale_world master_connected
     (CreatePull (pull_title master_env) (pull_body master_env) ''master''
        ''create-pull-request/patch-a1b2c3d'')
   = Inl (GithubException 422 JNull)"
    by (simp add: stale_world_def)
  show ?thesis
    using d by (simp add: r status_of_def exit_code_def)
qed

text \<open>
  C1, as amended. When the head branch is resolved and the remote-tracking refs list it:
  with the short-commit-hash strategy the run prints two lines and exits with status 0;
  with timestamp or random it prints two lines and exits with status 1. In both cases
  nothing follows the listing of the refs but output, and the whole trace holds no
  checkout of the head branch, no staging, commit or push and no request to the hosting
  API. The git commands it holds are the short hash and those of checking out the base
  (stash, checkout, stash pop, and after a failed pop \<open>checkout --theirs .\<close> and
  \<open>reset\<close>), which base resolution runs for a base override and for a pull-request ref;
  with neither, no checkout of any branch has run. With the strategy none the head
  branch is the prefix itself and the run goes on into the checkout of the existing
  branch: \<open>git stash --include-untracked\<close>, and when that succeeds \<open>git checkout\<close> of the
  branch.
\<close>

theorem existing_branch_policy:
  assumes "resolve w env [] = (Inr (cfg, base, sfx, branch), h)"
    and "origin_refs w h = Inr refs"
    and "''origin/'' @ branch \<in> set refs"
  shows "(sfx = ''short-commit-hash'' \<longrightarrow>
            run w env =
              (Inl (Exit 0),
               h @ [OriginRefs, Print (exists_message branch),
                    Print (''Pull request branch '' @ quoted branch
                           @ '' already exists for this commit. Skipping.'')])
            \<and> status_of w env = 0
            \<and> \<not> list_ex is_publish (trace_of w env)
            \<and> \<not> list_ex (checks_out branch) (trace_of w env)
            \<and> list_all (resolving base) (trace_of w env)
            \<and> (base_override cfg = None \<and> \<not> startswith (github_ref cfg) ''refs/pull/''
                 \<longrightarrow> list_all reading (trace_of w env)))
         \<and> (sfx = ''timestamp'' \<or> sfx = ''random'' \<longrightarrow>
            run w env =
              (Inl (Exit 1),
               h @ [OriginRefs, Print (exists_message branch),
                    Print (''Pull request branch '' @ quoted branch
                           @ '' collided with a branch of the same name. Please re-run.'')])
            \<and> status_of w env = 1
            \<and> \<not> list_ex is_publish (trace_of w env)
            \<and> \<not> list_ex (checks_out branch) (trace_of w env)
            \<and> list_all (resolving base) (trace_of w env)
            \<and> (base_override cfg = None \<and> \<not> startswith (github_ref cfg) ''refs/pull/''
                 \<longrightarrow> list_all reading (trace_of w env)))
         \<and> (sfx = ''none'' \<longrightarrow>
            branch = branch_prefix cfg
            \<and> (\<exists>rest. trace_of w env =
                   h @ [OriginRefs, Print (exists_message branch),
                        Print (''Checking out branch '' @ quoted branch),
                        Git ''stash'' [] [''--include-untracked'']] @ rest
                 \<and> (\<forall>out. git_exec w
                              (h @ [OriginRefs, Print (exists_message branch),
                                    Print (''Checking out branch '' @ quoted branch)])
                              ''stash'' [] [''--include-untracked''] = Inr out
                       \<longrightarrow> (\<exists>rest'. rest = Git ''checkout'' [] [branch] # rest'))))"
proof -
  note c = check_remote_exists[OF assms(2,3)]
  have np: "\<not> list_ex is_publish h"
    by (rule resolve_no_publish[OF assms(1)])
  have nc: "\<not> list_ex (checks_out branch) h"
    by (rule resolve_no_head_checkout[OF assms(1)])
  note rt = resolve_trace[OF assms(1)]
  have quiet: "\<not> list_ex is_publish (h @ [OriginRefs, Print a, Print b])
               \<and> \<not> list_ex (checks_out branch) (h @ [OriginRefs, Print a, Print b])
               \<and> list_all (resolving base) (h @ [OriginRefs, Print a, Print b])
               \<and> (base_override cfg = None \<and> \<not> startswith (github_ref cfg) ''refs/pull/''
                    \<longrightarrow> list_all reading (h @ [OriginRefs, Print a, Print b]))" for a b
    using np nc rt
    by (simp add: is_publish_def checks_out_def resolving_def reading_def local_event_def)
  have one: ?thesis if s: "sfx = ''short-commit-hash''"
  proof -
    have "run w env =
              (Inl (Exit 0),
               h @ [OriginRefs, Print (exists_message branch),
                    Print (''Pull request branch '' @ quoted branch
                           @ '' already exists for this commit. Skipping.'')])"
      by (rule run_stops_at_check_remote[OF assms(1)]) (simp add: c s)
    then show ?thesis
      using s quiet by (simp add: status_of_def trace_of_def exit_code_def)
  qed
  have two: ?thesis if s: "sfx = ''timestamp'' \<or> sfx = ''random''"
  proof -
    have "run w env =
              (Inl (Exit 1),
               h @ [OriginRefs, Print (exists_message branch),
                    Print (''Pull request branch '' @ quoted branch
                           @ '' collided with a branch of the same name. Please re-run.'')])"
      by (rule run_stops_at_check_remote[OF assms(1)]) (use s in \<open>auto simp: c\<close>)
    then show ?thesis
      using s quiet by (auto simp: status_of_def trace_of_def exit_code_def)
  qed
  have three: ?thesis if s: "sfx = ''none''"
  proof -
    let ?h = "h @ [OriginRefs, Print (exists_message branch)]"
    from resolve_parts[OF assms(1)] obtain h0 h1 where
      "set_branch w env cfg h1 = (Inr (sfx, branch), h)" by blast
    from set_branch_result[OF this] s have p: "branch = branch_prefix cfg"
      by blast
    have "check_remote w sfx branch h = (Inr True, ?h)"
      by (simp add: c s)
    from prepare_at_checkout[OF assms(1) this]
    have q: "snd (prepare w env []) = snd (checkout_branch w True branch ?h)" .
    from checkout_branch_starts[of w branch ?h] obtain rest where
      r: "snd (checkout_branch w True branch ?h) =
            ?h @ [Print (''Checking out branch '' @ quoted branch),
                  Git ''stash'' [] [''--include-untracked'']] @ rest"
      and n: "\<forall>out. git_exec w (?h @ [Print (''Checking out branch '' @ quoted branch)])
                       ''stash'' [] [''--include-untracked''] = Inr out
                \<longrightarrow> (\<exists>rest'. rest = Git ''checkout'' [] [branch] # rest')"
      by (elim exE conjE) (rule that)
    from trace_after_prepare[of w env] q r obtain es where
      t: "trace_of w env =
            h @ [OriginRefs, Print (exists_message branch),
                 Print (''Checking out branch '' @ quoted branch),
                 Git ''stash'' [] [''--include-untracked'']] @ (rest @ es)"
      by auto
    have "\<exists>rest. trace_of w env =
                   h @ [OriginRefs, Print (exists_message branch),
                        Print (''Checking out branch '' @ quoted branch),
                        Git ''stash'' [] [''--include-untracked'']] @ rest
                 \<and> (\<forall>out. git_exec w
                              (h @ [OriginRefs, Print (exists_message branch),
                                    Print (''Checking out branch '' @ quoted branch)])
                              ''stash'' [] [''--include-untracked''] = Inr out
                       \<longrightarrow> (\<exists>rest'. rest = Git ''checkout'' [] [branch] # rest'))"
      using t n by (intro exI[of _ "rest @ es"]) auto
    with p s show ?thesis by simp
  qed
  consider "sfx = ''short-commit-hash''" | "sfx = ''timestamp'' \<or> sfx = ''random''"
    | "sfx = ''none''"
    | "sfx \<noteq> ''short-commit-hash''" "sfx \<noteq> ''timestamp''" "sfx \<noteq> ''random''"
      "sfx \<noteq> ''none''"
    by blast
  then show ?thesis
  proof cases
    case 1
    then show ?thesis by (rule one)
  next
    case 2
    then show ?thesis by (rule two)
  next
    case 3
    then show ?thesis by (rule three)
  next
    case 4
    then show ?thesis by simp
  qed
qed

theorem existing_branch_policy_witness:
  "resolve again_world master_env [] =
     (Inr (master_cfg, ''master'', ''short-commit-hash'', ''create-pull-request/patch-a1b2c3d''),
      master_resolved)
   \<and> origin_refs again_world master_resolved = Inr [''origin/create-pull-request/patch-a1b2c3d'']
   \<and> ''origin/'' @ ''create-pull-request/patch-a1b2c3d''
        \<in> set [''origin/create-pull-request/patch-a1b2c3d'']
   \<and> status_of again_world master_env = 0
   \<and> \<not> list_ex is_publish (trace_of again_world master_env)
   \<and> \<not> list_ex (checks_out ''create-pull-request/patch-a1b2c3d'') (trace_of again_world master_env)
   \<and> list_all reading (trace_of again_world master_env)
   \<and> resolve fixed_world fixed_env [] =
       (Inr (master_cfg, ''master'', ''none'', ''create-pull-request/patch''), fixed_resolved)
   \<and> origin_refs fixed_world fixed_resolved
       = Inr [''origin/master'', ''origin/create-pull-request/patch'']
   \<and> ''origin/'' @ ''create-pull-request/patch''
        \<in> set [''origin/master'', ''origin/create-pull-request/patch'']
   \<and> ''create-pull-request/patch'' = branch_prefix master_cfg"
proof -
  have a: "resolve again_world master_env [] =
     (Inr (master_cfg, ''master'', ''short-commit-hash'', ''create-pull-request/patch-a1b2c3d''),
      master_resolved)"
    unfolding again_world_def resolve_origin_refs by (rule master_resolve)
  have b: "origin_refs again_world master_resolved
             = Inr [''origin/create-pull-request/patch-a1b2c3d'']"
    by (simp add: again_world_def)
  have c: "''origin/'' @ ''create-pull-request/patch-a1b2c3d''
        \<in> set [''origin/create-pull-request/patch-a1b2c3d'']"
    by simp
  have a': "resolve fixed_world fixed_env [] =
       (Inr (master_cfg, ''master'', ''none'', ''create-pull-request/patch''), fixed_resolved)"
    unfolding fixed_world_def resolve_origin_refs by (rule fixed_resolve)
  have b': "origin_refs fixed_world fixed_resolved
       = Inr [''origin/master'', ''origin/create-pull-request/patch'']"
    by (simp add: fixed_world_def)
  have c': "''origin/'' @ ''create-pull-request/patch''
        \<in> set [''origin/master'', ''origin/create-pull-request/patch'']"
    by simp
  have n: "base_override master_cfg = None"
    "\<not> startswith (github_ref master_cfg) ''refs/pull/''"
    by (simp_all add: master_cfg_def)
  show ?thesis
    using existing_branch_policy[OF a b c] existing_branch_policy[OF a' b' c'] a b c a' b' c' n
    by simp
qed

theorem existing_branch_base_checked_out:
  "resolve again_world dev_env [] =
     (Inr (dev_cfg, ''develop'', ''short-commit-hash'', ''create-pull-request/patch-a1b2c3d''),
      dev_resolved)
   \<and> origin_refs again_world dev_resolved = Inr [''origin/create-pull-request/patch-a1b2c3d'']
   \<and> status_of again_world dev_env = 0
   \<and> list_ex (checks_out ''develop'') (trace_of again_world dev_env)
   \<and> Git ''stash'' [] [''--include-untracked''] \<in> set (trace_of again_world dev_env)
   \<and> Git ''stash'' [] [''pop''] \<in> set (trace_of again_world dev_env)"
proof -
  have a: "resolve again_world dev_env [] =
     (Inr (dev_cfg, ''develop'', ''short-commit-hash'', ''create-pull-request/patch-a1b2c3d''),
      dev_resolved)"
    unfolding again_world_def resolve_origin_refs by (rule dev_resolve)
  have b: "origin_refs again_world dev_resolved
             = Inr [''origin/create-pull-request/patch-a1b2c3d'']"
    by (simp add: again_world_def)
  have "check_remote again_world ''short-commit-hash'' ''create-pull-request/patch-a1b2c3d''
          dev_resolved =
        (Inl (Exit 0),
         dev_resolved
         @ [OriginRefs, Print (exists_message ''create-pull-request/patch-a1b2c3d''),
            Print (''Pull request branch '' @ quoted ''create-pull-request/patch-a1b2c3d''
                   @ '' already exists for this commit. Skipping.'')])"
    using check_remote_exists[OF b, of "''create-pull-request/patch-a1b2c3d''"
        "''short-commit-hash''"]
    by simp
  from run_stops_at_check_remote[OF a this]
  have r: "run again_world dev_env =
        (Inl (Exit 0),
         dev_resolved
         @ [OriginRefs, Print (exists_message ''create-pull-request/patch-a1b2c3d''),
            Print (''Pull request branch '' @ quoted ''create-pull-request/patch-a1b2c3d''
                   @ '' already exists for this commit. Skipping.'')])" .
  show ?thesis
    using a b
    by (simp add: r status_of_def trace_of_def exit_code_def dev_resolved_def checks_out_def)
qed

end
